theory Spec2Isabelle
  imports Complex_Main "HOL-Library.Sublist"
begin

section \<open>Employee data cleaning: the pipeline of \<open>data_cleaning.py\<close>\<close>

text \<open>
  The script cleans a pandas DataFrame in a fixed order of steps (\<open>main\<close>, steps 3 to 14).
  A DataFrame is modelled as the list of its rows, in index order; a row is a record with
  one field per column the steps touch. A column operation \<open>df[c] = f(df[c])\<close> of an
  element-wise \<open>f\<close> is a \<open>map\<close> that updates field \<open>c\<close> of every row. Console output
  (\<open>print\<close>) is not modelled; a count that the code branches on is.

  Library behaviour is that of pandas 2.x and of CPython's \<open>str\<close> and \<open>re\<close>:
  \<^item> a Python string is the list of its Unicode code points;
  \<^item> white space is the set that \<open>str.strip()\<close> removes, written out below;
  \<^item> letter case follows the loops of \<open>str.title()\<close> and \<open>str.lower()\<close>; the case
    tables of the Unicode database are a parameter beyond ASCII and written out for ASCII;
  \<^item> the missing marker (\<open>NaN\<close>, \<open>NaT\<close>) is \<open>None\<close>;
  \<^item> a parsed number is an exact rational, a parsed date an integer time stamp;
  \<^item> the parsers behind \<open>pd.to_numeric\<close> and \<open>pd.to_datetime\<close> are parameters of the
    model, and so is the dtype that \<open>pd.to_numeric\<close> gives the salary column.
\<close>

subsection \<open>Python strings\<close>

type_synonym codepoint = nat

type_synonym ustr = "codepoint list"

text \<open>The code points of a literal of this file (all of them ASCII).\<close>

definition ascii :: "string \<Rightarrow> ustr" where
  "ascii s = map of_char s"

text \<open>
  White space as \<open>str.strip()\<close> and \<open>str.isspace()\<close> know it
  (\<open>_PyUnicode_IsWhitespace\<close>): the ASCII controls 09 to 0D and 1C to 1F, the blank,
  and the Unicode spaces and separators.
\<close>

definition isspace :: "codepoint \<Rightarrow> bool" where
  "isspace c =
     ((0x09 \<le> c \<and> c \<le> 0x0D) \<or> (0x1C \<le> c \<and> c \<le> 0x20) \<or> c = 0x85 \<or> c = 0xA0
      \<or> c = 0x1680 \<or> (0x2000 \<le> c \<and> c \<le> 0x200A) \<or> c = 0x2028 \<or> c = 0x2029
      \<or> c = 0x202F \<or> c = 0x205F \<or> c = 0x3000)"

text \<open>\<open>str.strip()\<close> with no argument removes white space at both ends.\<close>

definition lstrip :: "ustr \<Rightarrow> ustr" where
  "lstrip s = dropWhile isspace s"

definition rstrip :: "ustr \<Rightarrow> ustr" where
  "rstrip s = rev (dropWhile isspace (rev s))"

definition strip :: "ustr \<Rightarrow> ustr" where
  "strip s = rstrip (lstrip s)"

text \<open>
  The case tables of the Unicode database, for the code points from 128 on: the full
  lowercase and titlecase mappings (one to three code points) and the properties Cased
  and Case_Ignorable.
\<close>

record case_tables =
  lower_of :: "codepoint \<Rightarrow> ustr"
  title_of :: "codepoint \<Rightarrow> ustr"
  cased :: "codepoint \<Rightarrow> bool"
  case_ignorable :: "codepoint \<Rightarrow> bool"

text \<open>
  The same for every code point (\<open>_PyUnicode_ToLowerFull\<close>, \<open>_PyUnicode_ToTitleFull\<close>,
  \<open>_PyUnicode_IsCased\<close>, \<open>_PyUnicode_IsCaseIgnorable\<close>). In ASCII the letters are the
  cased characters, and apostrophe, full stop, colon, circumflex and grave accent the
  case-ignorable ones.
\<close>

definition to_lower_full :: "case_tables \<Rightarrow> codepoint \<Rightarrow> ustr" where
  "to_lower_full u c =
     (if c < 128 then [if 0x41 \<le> c \<and> c \<le> 0x5A then c + 32 else c] else lower_of u c)"

definition to_title_full :: "case_tables \<Rightarrow> codepoint \<Rightarrow> ustr" where
  "to_title_full u c =
     (if c < 128 then [if 0x61 \<le> c \<and> c \<le> 0x7A then c - 32 else c] else title_of u c)"

definition is_cased :: "case_tables \<Rightarrow> codepoint \<Rightarrow> bool" where
  "is_cased u c =
     (if c < 128 then (0x41 \<le> c \<and> c \<le> 0x5A) \<or> (0x61 \<le> c \<and> c \<le> 0x7A) else cased u c)"

definition is_case_ignorable :: "case_tables \<Rightarrow> codepoint \<Rightarrow> bool" where
  "is_case_ignorable u c =
     (if c < 128 then c = 0x27 \<or> c = 0x2E \<or> c = 0x3A \<or> c = 0x5E \<or> c = 0x60
      else case_ignorable u c)"

text \<open>
  \<open>handle_capital_sigma\<close>: a capital sigma is lowercased to the final sigma when a cased
  character stands before it and none after it, case-ignorable characters skipped.
  \<open>left\<close> is the text before the sigma, nearest character first; \<open>right\<close> the text after.
\<close>

definition handle_capital_sigma :: "case_tables \<Rightarrow> ustr \<Rightarrow> ustr \<Rightarrow> codepoint" where
  "handle_capital_sigma u left right =
     (let l = dropWhile (is_case_ignorable u) left;
          final_sigma = (l \<noteq> [] \<and> is_cased u (hd l));
          r = dropWhile (is_case_ignorable u) right;
          final_sigma = (final_sigma \<and> (r = [] \<or> \<not> is_cased u (hd r)))
      in if final_sigma then 0x3C2 else 0x3C3)"

definition lower_ucs4 :: "case_tables \<Rightarrow> ustr \<Rightarrow> codepoint \<Rightarrow> ustr \<Rightarrow> ustr" where
  "lower_ucs4 u left c right =
     (if c = 0x3A3 then [handle_capital_sigma u left right] else to_lower_full u c)"

text \<open>\<open>str.lower()\<close> (\<open>do_lower\<close>).\<close>

fun lower_from :: "case_tables \<Rightarrow> ustr \<Rightarrow> ustr \<Rightarrow> ustr" where
  "lower_from u left [] = []"
| "lower_from u left (c # cs) = lower_ucs4 u left c cs @ lower_from u (c # left) cs"

definition lower :: "case_tables \<Rightarrow> ustr \<Rightarrow> ustr" where
  "lower u s = lower_from u [] s"

text \<open>
  \<open>str.title()\<close> (\<open>do_title\<close>): a character that follows a cased character is
  lowercased, any other is titlecased. The flag is \<open>previous_is_cased\<close>.
\<close>

fun title_from :: "case_tables \<Rightarrow> ustr \<Rightarrow> bool \<Rightarrow> ustr \<Rightarrow> ustr" where
  "title_from u left prev [] = []"
| "title_from u left prev (c # cs) =
     (if prev then lower_ucs4 u left c cs else to_title_full u c)
       @ title_from u (c # left) (is_cased u c) cs"

definition title :: "case_tables \<Rightarrow> ustr \<Rightarrow> ustr" where
  "title u s = title_from u [] False s"

text \<open>\<open>str.replace(old, new)\<close> for a pattern \<open>old\<close> of one character.\<close>

definition str_replace :: "codepoint \<Rightarrow> ustr \<Rightarrow> ustr \<Rightarrow> ustr" where
  "str_replace old new s = concat (map (\<lambda>c. if c = old then new else [c]) s)"

text \<open>\<open>str(x)\<close> of a cell of an object column: a string is itself, \<open>NaN\<close> is \<open>nan\<close>.\<close>

definition astype_str :: "ustr option \<Rightarrow> ustr" where
  "astype_str v = (case v of None \<Rightarrow> ascii ''nan'' | Some s \<Rightarrow> s)"

subsection \<open>The table\<close>

text \<open>
  One record type serves the table before and after \<open>convert_data_types\<close>: the cells of
  the two numeric columns have type \<open>'n\<close> and those of the two date columns type \<open>'d\<close>.
  In the table as loaded every column but the key is an object column, whose cells are
  strings or \<open>NaN\<close> (\<open>ustr option\<close>); after the conversion \<open>'n\<close> is \<open>rat option\<close> and
  \<open>'d\<close> is \<open>timestamp option\<close>. \<open>validate_emails\<close> adds the column \<open>email_valid\<close>.
\<close>

type_synonym timestamp = int

record ('n, 'd) employee =
  employee_id :: "int option"
  first_name :: "ustr option"
  last_name :: "ustr option"
  email :: "ustr option"
  gender :: "ustr option"
  department :: "ustr option"
  currency :: "ustr option"
  country :: "ustr option"
  state :: "ustr option"
  city :: "ustr option"
  salary :: 'n
  manager_id :: 'n
  hire_date :: 'd
  exit_date :: 'd

record ('n, 'd) checked = "('n, 'd) employee" +
  email_valid :: bool

type_synonym raw_employee = "(ustr option, ustr option) employee"
type_synonym typed_employee = "(rat option, timestamp option) employee"

subsection \<open>Step 14: duplicates\<close>

text \<open>
  \<open>Series.duplicated()\<close> (\<open>keep='first'\<close>) marks every value that occurred earlier in
  the column; two missing keys count as equal. \<open>seen\<close> holds the values passed so far.
\<close>

fun duplicated_from :: "'a list \<Rightarrow> 'a list \<Rightarrow> bool list" where
  "duplicated_from seen [] = []"
| "duplicated_from seen (x # xs) = (x \<in> set seen) # duplicated_from (x # seen) xs"

definition duplicated :: "'a list \<Rightarrow> bool list" where
  "duplicated xs = duplicated_from [] xs"

text \<open>\<open>Series.sum()\<close> of a Boolean column counts its \<open>True\<close> cells.\<close>

definition sum_bool :: "bool list \<Rightarrow> nat" where
  "sum_bool bs = length (filter (\<lambda>b. b) bs)"

text \<open>\<open>df.drop_duplicates(subset=[k], keep='first')\<close> keeps the rows not marked.\<close>

definition drop_duplicates :: "('r \<Rightarrow> 'a) \<Rightarrow> 'r list \<Rightarrow> 'r list" where
  "drop_duplicates key df =
     map fst (filter (\<lambda>(r, d). \<not> d) (zip df (duplicated (map key df))))"

definition remove_duplicates :: "('n, 'd, 'z) employee_scheme list \<Rightarrow> ('n, 'd, 'z) employee_scheme list" where
  "remove_duplicates df =
     (if sum_bool (duplicated (map employee_id df)) > 0
      then drop_duplicates employee_id df
      else df)"

subsection \<open>Step 3: string cleaning\<close>

text \<open>\<open>df[col].astype(str).str.strip()\<close>, on one cell.\<close>

definition strip_cell :: "ustr option \<Rightarrow> ustr option" where
  "strip_cell v = Some (strip (astype_str v))"

text \<open>
  \<open>string_cols\<close> are the object columns of the table as loaded: all columns but the key.
  The methods of the \<open>.str\<close> accessor keep a missing cell missing (\<open>map_option\<close>).
\<close>

definition clean_strings :: "case_tables \<Rightarrow> raw_employee list \<Rightarrow> raw_employee list" where
  "clean_strings u df =
     (let df = map (\<lambda>r. r\<lparr>first_name := strip_cell (first_name r),
                            last_name := strip_cell (last_name r),
                            email := strip_cell (email r),
                            gender := strip_cell (gender r),
                            department := strip_cell (department r),
                            currency := strip_cell (currency r),
                            country := strip_cell (country r),
                            state := strip_cell (state r),
                            city := strip_cell (city r),
                            salary := strip_cell (salary r),
                            manager_id := strip_cell (manager_id r),
                            hire_date := strip_cell (hire_date r),
                            exit_date := strip_cell (exit_date r)\<rparr>) df;
          df = map (\<lambda>r. r\<lparr>first_name := map_option (title u) (first_name r)\<rparr>) df;
          df = map (\<lambda>r. r\<lparr>last_name := map_option (title u) (last_name r)\<rparr>) df;
          df = map (\<lambda>r. r\<lparr>email := map_option (lower u) (email r)\<rparr>) df;
          df = map (\<lambda>r. r\<lparr>city := map_option (title u) (city r)\<rparr>) df
      in df)"

subsection \<open>Step 4: data type conversions\<close>

text \<open>
  \<open>pd.to_numeric\<close> and \<open>pd.to_datetime\<close> read a column cell by cell (\<open>format='mixed'\<close>
  infers the format of each cell on its own). \<open>parse\<close> is the library's reading of one
  text, \<open>None\<close> where it reads no value. With \<open>errors='raise'\<close> such a cell raises
  \<open>ValueError\<close>, with \<open>errors='coerce'\<close> it becomes the missing marker. A missing cell
  stays missing.
\<close>

datatype errors = Raise | Coerce

datatype error = ValueError

definition parse_cell :: "(ustr \<Rightarrow> 'v option) \<Rightarrow> errors \<Rightarrow> ustr option \<Rightarrow> error + 'v option" where
  "parse_cell parse errs c =
     (case c of
        None \<Rightarrow> Inr None
      | Some s \<Rightarrow>
          (case parse s of
             Some v \<Rightarrow> Inr (Some v)
           | None \<Rightarrow> (case errs of Coerce \<Rightarrow> Inr None | Raise \<Rightarrow> Inl ValueError)))"

fun collect :: "(error + 'a) list \<Rightarrow> error + 'a list" where
  "collect [] = Inr []"
| "collect (x # xs) =
     (case x of
        Inl e \<Rightarrow> Inl e
      | Inr v \<Rightarrow> (case collect xs of Inl e \<Rightarrow> Inl e | Inr vs \<Rightarrow> Inr (v # vs)))"

definition pd_to_numeric :: "(ustr \<Rightarrow> rat option) \<Rightarrow> errors \<Rightarrow> ustr option list \<Rightarrow> error + rat option list" where
  "pd_to_numeric parse errs col = collect (map (parse_cell parse errs) col)"

definition pd_to_datetime :: "(ustr \<Rightarrow> timestamp option) \<Rightarrow> errors \<Rightarrow> ustr option list \<Rightarrow> error + timestamp option list" where
  "pd_to_datetime parse errs col = collect (map (parse_cell parse errs) col)"

text \<open>The row with its four converted cells; every other column is kept.\<close>

definition with_columns :: "('a, 'b) employee \<Rightarrow> 'n \<Rightarrow> 'n \<Rightarrow> 'd \<Rightarrow> 'd \<Rightarrow> ('n, 'd) employee" where
  "with_columns r s m h x =
     \<lparr>employee_id = employee_id r, first_name = first_name r, last_name = last_name r,
      email = email r, gender = gender r, department = department r,
      currency = currency r, country = country r, state = state r, city = city r,
      salary = s, manager_id = m, hire_date = h, exit_date = x\<rparr>"

definition convert_data_types ::
  "(ustr \<Rightarrow> rat option) \<Rightarrow> (ustr \<Rightarrow> timestamp option) \<Rightarrow> raw_employee list \<Rightarrow> error + typed_employee list" where
  "convert_data_types to_num to_date df =
     (let salary_text = map (\<lambda>r. Some (strip (str_replace 0x2C [] (astype_str (salary r))))) df in
      case pd_to_numeric to_num Coerce salary_text of Inl e \<Rightarrow> Inl e | Inr sal \<Rightarrow>
      (case pd_to_numeric to_num Coerce (map manager_id df) of Inl e \<Rightarrow> Inl e | Inr mgr \<Rightarrow>
      (case pd_to_datetime to_date Coerce (map hire_date df) of Inl e \<Rightarrow> Inl e | Inr hire \<Rightarrow>
      (case pd_to_datetime to_date Coerce (map exit_date df) of Inl e \<Rightarrow> Inl e | Inr exit \<Rightarrow>
         Inr (map (\<lambda>(r, s, m, h, x). with_columns r s m h x)
                (zip df (zip sal (zip mgr (zip hire exit)))))))))"

subsection \<open>Steps 5 to 9: category standardization\<close>

text \<open>
  \<open>Series.replace(mapping)\<close> with a dictionary: a cell equal to a key becomes the key's
  value, any other cell (a missing one too) is kept. A dictionary is the list of its
  items, looked up with \<open>map_of\<close>.
\<close>

definition replace_value :: "(ustr \<times> ustr) list \<Rightarrow> ustr option \<Rightarrow> ustr option" where
  "replace_value mapping v =
     (case v of
        None \<Rightarrow> None
      | Some s \<Rightarrow> (case map_of mapping s of Some c \<Rightarrow> Some c | None \<Rightarrow> Some s))"

definition gender_mapping :: "(ustr \<times> ustr) list" where
  "gender_mapping =
     [(ascii ''M'', ascii ''Male''), (ascii ''Male'', ascii ''Male''),
      (ascii ''F'', ascii ''Female''), (ascii ''Female'', ascii ''Female''),
      (ascii ''Other'', ascii ''Other'')]"

definition dept_mapping :: "(ustr \<times> ustr) list" where
  "dept_mapping =
     [(ascii ''HR'', ascii ''Human Resource''), (ascii ''H.R'', ascii ''Human Resource''),
      (ascii ''H.R.'', ascii ''Human Resource''),
      (ascii ''Human Resources'', ascii ''Human Resource''),
      (ascii ''Human Resource'', ascii ''Human Resource''),
      (ascii ''IT'', ascii ''Information Technology''),
      (ascii ''Information Technology'', ascii ''Information Technology''),
      (ascii ''Ops'', ascii ''Operations''), (ascii ''Operations'', ascii ''Operations''),
      (ascii ''Eng'', ascii ''Engineering''), (ascii ''Engineering'', ascii ''Engineering''),
      (ascii ''FIN'', ascii ''Finance''), (ascii ''Finance'', ascii ''Finance''),
      (ascii ''sales'', ascii ''Sales''), (ascii ''Sales'', ascii ''Sales'')]"

text \<open>
  The pound sign is the code point A3; the key with the encoding artifact is the two
  code points C2 and A3.
\<close>

definition currency_map :: "(ustr \<times> ustr) list" where
  "currency_map =
     [(ascii ''ZAR'', ascii ''ZAR''), (ascii ''R'', ascii ''ZAR''), (ascii ''$'', ascii ''USD''),
      (ascii ''GBP'', ascii ''GBP''), ([0xA3], ascii ''GBP''), ([0xC2, 0xA3], ascii ''GBP''),
      (ascii ''USD'', ascii ''USD'')]"

definition country_mapping :: "(ustr \<times> ustr) list" where
  "country_mapping =
     [(ascii ''south-africa'', ascii ''South Africa''),
      (ascii ''South Africa'', ascii ''South Africa''),
      (ascii ''SA'', ascii ''South Africa''), (ascii ''ZA'', ascii ''South Africa''),
      (ascii ''UK'', ascii ''United Kingdom''), (ascii ''U.K.'', ascii ''United Kingdom''),
      (ascii ''United Kingdom'', ascii ''United Kingdom''),
      (ascii ''USA'', ascii ''United States''),
      (ascii ''United States'', ascii ''United States'')]"

definition state_mapping :: "(ustr \<times> ustr) list" where
  "state_mapping =
     [(ascii ''KZN'', ascii ''KwaZulu-Natal''), (ascii ''KwaZulu-Natal'', ascii ''KwaZulu-Natal''),
      (ascii ''Western Cape'', ascii ''Western Cape''), (ascii ''Gauteng'', ascii ''Gauteng''),
      (ascii ''Limpopo'', ascii ''Limpopo'')]"

definition standardize_gender :: "('n, 'd, 'z) employee_scheme list \<Rightarrow> ('n, 'd, 'z) employee_scheme list" where
  "standardize_gender df = map (\<lambda>r. r\<lparr>gender := replace_value gender_mapping (gender r)\<rparr>) df"

definition standardize_department :: "('n, 'd, 'z) employee_scheme list \<Rightarrow> ('n, 'd, 'z) employee_scheme list" where
  "standardize_department df =
     map (\<lambda>r. r\<lparr>department := replace_value dept_mapping (strip_cell (department r))\<rparr>) df"

definition standardize_currency :: "('n, 'd, 'z) employee_scheme list \<Rightarrow> ('n, 'd, 'z) employee_scheme list" where
  "standardize_currency df = map (\<lambda>r. r\<lparr>currency := replace_value currency_map (currency r)\<rparr>) df"

definition standardize_country :: "('n, 'd, 'z) employee_scheme list \<Rightarrow> ('n, 'd, 'z) employee_scheme list" where
  "standardize_country df = map (\<lambda>r. r\<lparr>country := replace_value country_mapping (country r)\<rparr>) df"

definition standardize_state :: "('n, 'd, 'z) employee_scheme list \<Rightarrow> ('n, 'd, 'z) employee_scheme list" where
  "standardize_state df = map (\<lambda>r. r\<lparr>state := replace_value state_mapping (state r)\<rparr>) df"

text \<open>The five steps in the order of \<open>main\<close>.\<close>

definition standardize_categories :: "('n, 'd, 'z) employee_scheme list \<Rightarrow> ('n, 'd, 'z) employee_scheme list" where
  "standardize_categories df =
     standardize_state (standardize_country (standardize_currency
       (standardize_department (standardize_gender df))))"

subsection \<open>Step 10: email validation\<close>

text \<open>
  The pattern language that \<open>email_pattern\<close> needs: a dot stands for any character but
  the line feed, a literal for itself, and \<open>+\<close> repeats one of them once or more.
  \<open>re.match\<close> anchors the pattern at the start of the text and not at its end.
\<close>

datatype atom = Dot | Lit codepoint

datatype item = One atom | OneOrMore atom

fun atom_matches :: "atom \<Rightarrow> codepoint \<Rightarrow> bool" where
  "atom_matches Dot c = (c \<noteq> 0x0A)"
| "atom_matches (Lit a) c = (c = a)"

fun re_match :: "item list \<Rightarrow> ustr \<Rightarrow> bool" where
  "re_match [] s = True"
| "re_match (One a # ps) [] = False"
| "re_match (One a # ps) (c # cs) = (atom_matches a c \<and> re_match ps cs)"
| "re_match (OneOrMore a # ps) [] = False"
| "re_match (OneOrMore a # ps) (c # cs) =
     (atom_matches a c \<and> (re_match (OneOrMore a # ps) cs \<or> re_match ps cs))"

text \<open>The pattern \<^verbatim>\<open>.+@.+\..+\<close>; 40 is the at sign, 2E the full stop.\<close>

definition email_pattern :: "item list" where
  "email_pattern =
     [OneOrMore Dot, One (Lit 0x40), OneOrMore Dot, One (Lit 0x2E), OneOrMore Dot]"

text \<open>\<open>Series.str.match(pat, na=...)\<close>: a missing cell gives \<open>na\<close>.\<close>

definition str_match :: "item list \<Rightarrow> bool \<Rightarrow> ustr option \<Rightarrow> bool" where
  "str_match pat na v = (case v of None \<Rightarrow> na | Some s \<Rightarrow> re_match pat s)"

definition validate_emails :: "('n, 'd) employee list \<Rightarrow> ('n, 'd) checked list" where
  "validate_emails df =
     map (\<lambda>r. employee.extend r (checked.fields (str_match email_pattern False (email r)))) df"

subsection \<open>Step 11: negative salaries\<close>

text \<open>A comparison with a missing value is false.\<close>

definition lt_zero :: "rat option \<Rightarrow> bool" where
  "lt_zero v = (case v of None \<Rightarrow> False | Some x \<Rightarrow> x < 0)"

text \<open>
  The dtype of the salary column is held by the DataFrame and not by its rows, so the
  step takes it as an argument: \<open>Int64\<close> for the \<open>int64\<close> column that \<open>pd.to_numeric\<close>
  returns where it read an integer in every cell, \<open>Float64\<close> for any other column.
  \<open>Series.abs()\<close> of an \<open>int64\<close> column wraps around: the least 64-bit integer has no
  positive counterpart and comes back as it is.
\<close>

datatype dtype = Int64 | Float64

definition series_abs :: "dtype \<Rightarrow> rat option \<Rightarrow> rat option" where
  "series_abs dt v =
     (case v of
        None \<Rightarrow> None
      | Some x \<Rightarrow> Some (if dt = Int64 \<and> x = - (2 ^ 63) then x else \<bar>x\<bar>))"

definition fix_negative_salaries ::
  "dtype \<Rightarrow> (rat option, 'd, 'z) employee_scheme list \<Rightarrow> (rat option, 'd, 'z) employee_scheme list" where
  "fix_negative_salaries dt df =
     (let negative_salaries = filter (\<lambda>r. lt_zero (salary r)) df in
      if length negative_salaries > 0
      then map (\<lambda>r. r\<lparr>salary := series_abs dt (salary r)\<rparr>) df
      else df)"

subsection \<open>Step 12: date logic\<close>

definition date_lt :: "timestamp option \<Rightarrow> timestamp option \<Rightarrow> bool" where
  "date_lt a b = (case (a, b) of (Some x, Some y) \<Rightarrow> x < y | _ \<Rightarrow> False)"

definition validate_dates ::
  "('n, timestamp option, 'z) employee_scheme list \<Rightarrow> ('n, timestamp option, 'z) employee_scheme list" where
  "validate_dates df =
     (let invalid_dates = filter (\<lambda>r. date_lt (exit_date r) (hire_date r)) df in
      if length invalid_dates > 0
      then map (\<lambda>r. if date_lt (exit_date r) (hire_date r) then r\<lparr>exit_date := None\<rparr> else r) df
      else df)"

subsection \<open>The pipeline\<close>

text \<open>
  Steps 3 to 14 of \<open>main\<close>; loading, the reports and the export are left out. \<open>dt\<close> is
  the dtype of the salary column after the conversion.
\<close>

definition main ::
  "case_tables \<Rightarrow> (ustr \<Rightarrow> rat option) \<Rightarrow> (ustr \<Rightarrow> timestamp option) \<Rightarrow> dtype \<Rightarrow> raw_employee list
     \<Rightarrow> error + (rat option, timestamp option) checked list" where
  "main u to_num to_date dt df =
     (case convert_data_types to_num to_date (clean_strings u df) of
        Inl e \<Rightarrow> Inl e
      | Inr df \<Rightarrow>
          Inr (remove_duplicates (validate_dates (fix_negative_salaries dt (validate_emails
                 (standardize_categories df))))))"

subsection \<open>The steps, row by row\<close>

text \<open>
  What \<open>clean_strings\<close>, \<open>convert_data_types\<close> and the five standardization steps make
  of one row; the lemmas below show that the column-wise code computes exactly this.
\<close>

definition clean_row :: "case_tables \<Rightarrow> raw_employee \<Rightarrow> raw_employee" where
  "clean_row u r =
     r\<lparr>first_name := Some (title u (strip (astype_str (first_name r)))),
       last_name := Some (title u (strip (astype_str (last_name r)))),
       email := Some (lower u (strip (astype_str (email r)))),
       gender := Some (strip (astype_str (gender r))),
       department := Some (strip (astype_str (department r))),
       currency := Some (strip (astype_str (currency r))),
       country := Some (strip (astype_str (country r))),
       state := Some (strip (astype_str (state r))),
       city := Some (title u (strip (astype_str (city r)))),
       salary := Some (strip (astype_str (salary r))),
       manager_id := Some (strip (astype_str (manager_id r))),
       hire_date := Some (strip (astype_str (hire_date r))),
       exit_date := Some (strip (astype_str (exit_date r)))\<rparr>"

definition convert_row ::
  "(ustr \<Rightarrow> rat option) \<Rightarrow> (ustr \<Rightarrow> timestamp option) \<Rightarrow> raw_employee \<Rightarrow> typed_employee" where
  "convert_row to_num to_date r =
     with_columns r
       (to_num (strip (str_replace 0x2C [] (astype_str (salary r)))))
       (case manager_id r of None \<Rightarrow> None | Some s \<Rightarrow> to_num s)
       (case hire_date r of None \<Rightarrow> None | Some s \<Rightarrow> to_date s)
       (case exit_date r of None \<Rightarrow> None | Some s \<Rightarrow> to_date s)"

definition standardize_row :: "('n, 'd, 'z) employee_scheme \<Rightarrow> ('n, 'd, 'z) employee_scheme" where
  "standardize_row r =
     r\<lparr>gender := replace_value gender_mapping (gender r),
       department := replace_value dept_mapping (strip_cell (department r)),
       currency := replace_value currency_map (currency r),
       country := replace_value country_mapping (country r),
       state := replace_value state_mapping (state r)\<rparr>"



subsection \<open>Readings of the claims\<close>

text \<open>
  The comparisons \<open>\<ge>\<close> that the specification writes, read as pandas evaluates them:
  false where a side is missing.
\<close>

definition date_ge :: "timestamp option \<Rightarrow> timestamp option \<Rightarrow> bool" where
  "date_ge a b = (case (a, b) of (Some x, Some y) \<Rightarrow> y \<le> x | _ \<Rightarrow> False)"

definition ge_zero :: "rat option \<Rightarrow> bool" where
  "ge_zero v = (case v of None \<Rightarrow> False | Some x \<Rightarrow> 0 \<le> x)"

text \<open>No white space at either end, of a text and of a cell.\<close>

definition trimmed :: "ustr \<Rightarrow> bool" where
  "trimmed s = (s = [] \<or> (\<not> isspace (hd s) \<and> \<not> isspace (last s)))"




text \<open>
  The canonical set of a mapping table is the set of its values. \<open>mapped_or_kept m v w\<close>:
  the cell \<open>v\<close> was found in the table and \<open>w\<close> is its canonical string, or it was not
  found and \<open>w\<close> is \<open>v\<close>. \<open>canonical_or_raw m v w\<close>: \<open>w\<close> is in the canonical set, or it
  is the value \<open>v\<close>, which the table does not have.
\<close>

definition canonical :: "(ustr \<times> ustr) list \<Rightarrow> ustr set" where
  "canonical m = snd ` set m"

definition mapped_or_kept :: "(ustr \<times> ustr) list \<Rightarrow> ustr option \<Rightarrow> ustr option \<Rightarrow> bool" where
  "mapped_or_kept m v w =
     (case v of
        None \<Rightarrow> w = None
      | Some s \<Rightarrow> (case map_of m s of Some c \<Rightarrow> w = Some c | None \<Rightarrow> w = Some s))"

definition canonical_or_raw :: "(ustr \<times> ustr) list \<Rightarrow> ustr option \<Rightarrow> ustr option \<Rightarrow> bool" where
  "canonical_or_raw m v w =
     (w \<in> Some ` canonical m
      \<or> (w = v \<and> (case v of None \<Rightarrow> True | Some s \<Rightarrow> map_of m s = None)))"

subsection \<open>Parsers and case tables for the examples\<close>

text \<open>
  The theorems hold for every parser. To run an example, these two read the plainest
  texts as the library does: a decimal literal (sign, digits, at most one point), and an
  ISO date \<open>YYYY-MM-DD\<close>, whose time stamp is the number \<open>YYYYMMDD\<close> (it orders dates as
  the calendar does). Any other text is unparseable to them.
\<close>

definition digit_of :: "codepoint \<Rightarrow> nat option" where
  "digit_of c = (if 0x30 \<le> c \<and> c \<le> 0x39 then Some (c - 0x30) else None)"

fun digits_value :: "nat \<Rightarrow> ustr \<Rightarrow> nat option" where
  "digits_value acc [] = Some acc"
| "digits_value acc (c # cs) =
     (case digit_of c of None \<Rightarrow> None | Some d \<Rightarrow> digits_value (10 * acc + d) cs)"

definition decimal_literal :: "ustr \<Rightarrow> rat option" where
  "decimal_literal s =
     (let neg = (take 1 s = ascii ''-'');
          body = (if take 1 s = ascii ''-'' \<or> take 1 s = ascii ''+'' then drop 1 s else s);
          whole = takeWhile (\<lambda>c. c \<noteq> 0x2E) body;
          frac = drop 1 (dropWhile (\<lambda>c. c \<noteq> 0x2E) body)
      in if whole = [] \<and> frac = [] then None
         else (case digits_value 0 (whole @ frac) of
                 None \<Rightarrow> None
               | Some n \<Rightarrow> Some ((if neg then - 1 else 1) * (of_nat n / 10 ^ length frac))))"

definition iso_date :: "ustr \<Rightarrow> timestamp option" where
  "iso_date s =
     (if length s = 10 \<and> s ! 4 = 0x2D \<and> s ! 7 = 0x2D
      then (case (digits_value 0 (take 4 s), digits_value 0 (take 2 (drop 5 s)),
                  digits_value 0 (drop 8 s)) of
              (Some y, Some m, Some d) \<Rightarrow>
                if 1 \<le> m \<and> m \<le> 12 \<and> 1 \<le> d \<and> d \<le> 31
                then Some (int (y * 10000 + m * 100 + d)) else None
            | _ \<Rightarrow> None)
      else None)"

text \<open>An integer literal: sign and digits only.\<close>

definition integer_literal :: "ustr \<Rightarrow> int option" where
  "integer_literal s =
     (let neg = (take 1 s = ascii ''-'');
          body = (if take 1 s = ascii ''-'' \<or> take 1 s = ascii ''+'' then drop 1 s else s)
      in if body = [] then None
         else (case digits_value 0 body of
                 None \<Rightarrow> None
               | Some n \<Rightarrow> Some ((if neg then - 1 else 1) * int n)))"

text \<open>
  The case tables of Latin-1 (80 to FF), for the examples, which use no code point
  above FF (there the tables below say: uncased and unchanged). The letters are C0 to
  FF but for the multiplication and division signs D7 and F7; the sharp s (DF) has the
  titlecase \<open>Ss\<close>, the micro sign (B5) and the y with diaeresis (FF) have theirs above
  FF; the ordinal indicators AA and BA are cased and unchanged; the case-ignorable
  marks are the diaeresis, the soft hyphen, the macron, the acute accent, the middle dot
  and the cedilla.
\<close>

definition latin1 :: case_tables where
  "latin1 =
     \<lparr>lower_of = (\<lambda>c. if 0xC0 \<le> c \<and> c \<le> 0xDE \<and> c \<noteq> 0xD7 then [c + 32] else [c]),
      title_of = (\<lambda>c. if 0xE0 \<le> c \<and> c \<le> 0xFE \<and> c \<noteq> 0xF7 then [c - 32]
                       else if c = 0xDF then [0x53, 0x73]
                       else if c = 0xB5 then [0x39C]
                       else if c = 0xFF then [0x178] else [c]),
      cased = (\<lambda>c. (0xC0 \<le> c \<and> c \<le> 0xFF \<and> c \<noteq> 0xD7 \<and> c \<noteq> 0xF7)
                    \<or> c = 0xAA \<or> c = 0xB5 \<or> c = 0xBA),
      case_ignorable = (\<lambda>c. c = 0xA8 \<or> c = 0xAD \<or> c = 0xAF \<or> c = 0xB4 \<or> c = 0xB7 \<or> c = 0xB8)\<rparr>"

subsection \<open>Example tables\<close>

text \<open>A row whose every cell is missing; the examples fill in what they need.\<close>

definition blank :: "('a option, 'b option) employee" where
  "blank =
     \<lparr>employee_id = None, first_name = None, last_name = None, email = None, gender = None,
      department = None, currency = None, country = None, state = None, city = None,
      salary = None, manager_id = None, hire_date = None, exit_date = None\<rparr>"

text \<open>Rows as loaded.\<close>

definition undated :: raw_employee where
  "undated = blank\<lparr>employee_id := Some 1, hire_date := Some (ascii ''unknown''),
                    exit_date := Some (ascii ''2020-01-01'')\<rparr>"

definition inverted :: raw_employee where
  "inverted = blank\<lparr>employee_id := Some 2, hire_date := Some (ascii ''2021-05-01''),
                     exit_date := Some (ascii ''2020-01-01'')\<rparr>"

definition unpaid :: raw_employee where
  "unpaid = blank\<lparr>employee_id := Some 3, salary := Some (ascii ''n/a'')\<rparr>"

definition indebted :: raw_employee where
  "indebted = blank\<lparr>employee_id := Some 4, salary := Some (ascii ''-4,500.00'')\<rparr>"

definition half_managed :: raw_employee where
  "half_managed = blank\<lparr>employee_id := Some 5, manager_id := Some (ascii ''3.5'')\<rparr>"

definition garbled :: raw_employee where
  "garbled = blank\<lparr>employee_id := Some 6, salary := Some (ascii ''n/a''),
                    manager_id := Some (ascii ''none''), hire_date := Some (ascii ''unknown''),
                    exit_date := Some (ascii ''tbd'')\<rparr>"

text \<open>
  The first name is \<open>emile\<close> with an acute accent on the first letter (E9), between two
  no-break spaces (A0).
\<close>

definition messy :: raw_employee where
  "messy = blank\<lparr>employee_id := Some 15,
                  first_name := Some (0xA0 # 0xE9 # ascii ''mile'' @ [0xA0]),
                  last_name := Some (ascii ''  o'brien ''),
                  email := Some (ascii '' Ann@Example.ORG ''),
                  city := Some (ascii ''cape  town'')\<rparr>"

text \<open>The department is \<open>HR\<close> between two no-break spaces.\<close>

definition padded :: raw_employee where
  "padded = blank\<lparr>employee_id := Some 17, gender := Some (ascii '' M ''),
                   department := Some (0xA0 # ascii ''HR'' @ [0xA0])\<rparr>"

text \<open>Rows after the conversion.\<close>

definition ann :: typed_employee where
  "ann = blank\<lparr>employee_id := Some 42, first_name := Some (ascii ''Ann'')\<rparr>"

definition ben :: typed_employee where
  "ben = blank\<lparr>employee_id := Some 7, first_name := Some (ascii ''Ben'')\<rparr>"

definition cat :: typed_employee where
  "cat = blank\<lparr>employee_id := Some 42, first_name := Some (ascii ''Cat'')\<rparr>"

definition stayed :: typed_employee where
  "stayed = blank\<lparr>employee_id := Some 8, hire_date := Some 20190301, exit_date := Some 20230630\<rparr>"

definition early :: typed_employee where
  "early = blank\<lparr>employee_id := Some 9, hire_date := Some 20210501, exit_date := Some 20200101\<rparr>"

definition owing :: typed_employee where
  "owing = blank\<lparr>employee_id := Some 10, salary := Some (- 100)\<rparr>"

definition earning :: typed_employee where
  "earning = blank\<lparr>employee_id := Some 11, salary := Some 250\<rparr>"

definition bottomless :: typed_employee where
  "bottomless = blank\<lparr>employee_id := Some 19, salary := Some (- (2 ^ 63))\<rparr>"

definition two_line :: typed_employee where
  "two_line = blank\<lparr>employee_id := Some 12, email := Some (ascii ''a'' @ [0x0A] @ ascii ''b@c.d'')\<rparr>"

definition no_email :: typed_employee where
  "no_email = blank\<lparr>employee_id := Some 13, email := Some (ascii ''not-an-email'')\<rparr>"

definition reachable :: typed_employee where
  "reachable = blank\<lparr>employee_id := Some 14, email := Some (ascii ''ann@example.org'')\<rparr>"

definition abbreviated :: typed_employee where
  "abbreviated = blank\<lparr>employee_id := Some 16, gender := Some (ascii ''M''),
                        department := Some (ascii ''H.R''), currency := Some (ascii ''R''),
                        country := Some (ascii ''ZA''), state := Some (ascii ''KZN'')\<rparr>"

definition spelled_out :: typed_employee where
  "spelled_out = blank\<lparr>employee_id := Some 16, gender := Some (ascii ''Male''),
                         department := Some (ascii ''Human Resource''),
                         currency := Some (ascii ''ZAR''),
                         country := Some (ascii ''South Africa''),
                         state := Some (ascii ''KwaZulu-Natal'')\<rparr>"

definition legal :: typed_employee where
  "legal = blank\<lparr>employee_id := Some 18, department := Some (ascii '' Legal '')\<rparr>"

section \<open>Properties\<close>

subsection \<open>Duplicates\<close>

lemma kept_rows_of_key:
  "filter (\<lambda>r. key r = k)
     (map fst (filter (\<lambda>(r, d). \<not> d) (zip df (duplicated_from seen (map key df)))))
   = (if k \<in> set seen then [] else take 1 (filter (\<lambda>r. key r = k) df))"
proof (induction df arbitrary: seen)
  case Nil
  show ?case by simp
next
  case (Cons r df)
  show ?case by (simp add: Cons.IH)
qed

lemma kept_rows_subseq:
  "subseq (map fst (filter (\<lambda>(r, d). \<not> d) (zip df (duplicated_from seen (map key df))))) df"
  by (induction df arbitrary: seen) auto

lemma kept_rows_keys:
  "set (map key (map fst (filter (\<lambda>(r, d). \<not> d) (zip df (duplicated_from seen (map key df))))))
     = set (map key df) - set seen"
  by (induction df arbitrary: seen) auto

lemma kept_rows_distinct:
  "distinct (map key (map fst (filter (\<lambda>(r, d). \<not> d) (zip df (duplicated_from seen (map key df))))))"
proof (induction df arbitrary: seen)
  case Nil
  show ?case by simp
next
  case (Cons r df)
  have "key r \<notin> set (map key (map fst (filter (\<lambda>(r, d). \<not> d)
          (zip df (duplicated_from (key r # seen) (map key df))))))"
    unfolding kept_rows_keys by simp
  with Cons.IH show ?case by simp
qed

lemma nothing_marked_distinct:
  "sum_bool (duplicated_from seen xs) = 0 \<Longrightarrow> distinct xs \<and> set xs \<inter> set seen = {}"
proof (induction xs arbitrary: seen)
  case Nil
  show ?case by simp
next
  case (Cons x xs)
  from Cons.prems have a: "x \<notin> set seen" and b: "sum_bool (duplicated_from (x # seen) xs) = 0"
    by (auto simp: sum_bool_def split: if_splits)
  from Cons.IH [OF b] a show ?case by auto
qed

lemma distinct_keys_single:
  "distinct (map key df) \<Longrightarrow> filter (\<lambda>r. key r = k) df = take 1 (filter (\<lambda>r. key r = k) df)"
proof (induction df)
  case Nil
  show ?case by simp
next
  case (Cons r df)
  show ?case
  proof (cases "key r = k")
    case True
    from Cons.prems have "key r \<notin> key ` set df" by simp
    with True have "\<forall>x\<in>set df. key x \<noteq> k" by blast
    then have "filter (\<lambda>r. key r = k) df = []"
      by (simp add: filter_empty_conv)
    with True show ?thesis by simp
  next
    case False
    with Cons show ?thesis by simp
  qed
qed

text \<open>
  C1. After \<open>remove_duplicates\<close> the \<open>employee_id\<close> values of the rows are pairwise
  distinct; of the rows with a given \<open>employee_id\<close> exactly the first one of the input
  is kept (none if the key does not occur); and the kept rows stand in the order they had
  in the input.
\<close>

theorem remove_duplicates_keeps_first:
  fixes df :: "('n, 'd, 'z) employee_scheme list"
  shows "distinct (map employee_id (remove_duplicates df))
     \<and> (\<forall>k. filter (\<lambda>r. employee_id r = k) (remove_duplicates df)
            = take 1 (filter (\<lambda>r. employee_id r = k) df))
     \<and> subseq (remove_duplicates df) df"
proof (cases "sum_bool (duplicated (map employee_id df)) > 0")
  case True
  then have e: "remove_duplicates df = drop_duplicates employee_id df"
    by (simp add: remove_duplicates_def)
  show ?thesis unfolding e drop_duplicates_def duplicated_def
    using kept_rows_distinct [of employee_id df "[]"] kept_rows_subseq [of df "[]" employee_id]
      kept_rows_of_key [of employee_id _ df "[]"]
    by simp
next
  case False
  then have e: "remove_duplicates df = df"
    by (simp add: remove_duplicates_def)
  from False have "distinct (map employee_id df)"
    using nothing_marked_distinct [of "[]" "map employee_id df"] by (simp add: duplicated_def)
  then show ?thesis unfolding e using distinct_keys_single [of employee_id df] by simp
qed

theorem remove_duplicates_keeps_first_witness:
  "remove_duplicates [ann, ben, cat] = [ann, ben]
   \<and> distinct (map employee_id (remove_duplicates [ann, ben, cat]))
   \<and> filter (\<lambda>r. employee_id r = Some 42) (remove_duplicates [ann, ben, cat])
       = take 1 (filter (\<lambda>r. employee_id r = Some 42) [ann, ben, cat])
   \<and> subseq (remove_duplicates [ann, ben, cat]) [ann, ben, cat]"
proof -
  have v: "remove_duplicates [ann, ben, cat] = [ann, ben]"
    by (simp add: remove_duplicates_def drop_duplicates_def duplicated_def sum_bool_def
        ann_def ben_def cat_def blank_def)
  from remove_duplicates_keeps_first [of "[ann, ben, cat]"] v show ?thesis by blast
qed

subsection \<open>The conversion and the pipeline, unfolded\<close>

lemma kept_rows_subset:
  "set (map fst (filter (\<lambda>(r, d). \<not> d) (zip df ds))) \<subseteq> set df"
  by (auto dest: set_zip_leftD)

lemma remove_duplicates_subset: "set (remove_duplicates df) \<subseteq> set df"
  using kept_rows_subset [of df "duplicated (map employee_id df)"]
  by (simp add: remove_duplicates_def drop_duplicates_def)

lemma collect_coerce:
  "collect (map (parse_cell parse Coerce) col)
     = Inr (map (\<lambda>c. case c of None \<Rightarrow> None | Some s \<Rightarrow> parse s) col)"
  by (induction col) (auto simp: parse_cell_def split: option.splits)

lemma zip_columns:
  "map (\<lambda>(r, s, m, h, x). f r s m h x)
     (zip df (zip (map a df) (zip (map b df) (zip (map c df) (map d df)))))
   = map (\<lambda>r. f r (a r) (b r) (c r) (d r)) df"
  by (induction df) auto

lemma convert_data_types_rows:
  "convert_data_types to_num to_date df = Inr (map (convert_row to_num to_date) df)"
proof -
  have s: "pd_to_numeric to_num Coerce
             (map (\<lambda>r. Some (strip (str_replace 0x2C [] (astype_str (salary r))))) df)
           = Inr (map (\<lambda>r. to_num (strip (str_replace 0x2C [] (astype_str (salary r))))) df)"
    unfolding pd_to_numeric_def collect_coerce by (simp add: comp_def)
  have m: "pd_to_numeric to_num Coerce (map manager_id df)
           = Inr (map (\<lambda>r. case manager_id r of None \<Rightarrow> None | Some s \<Rightarrow> to_num s) df)"
    unfolding pd_to_numeric_def collect_coerce by (simp add: comp_def)
  have h: "pd_to_datetime to_date Coerce (map hire_date df)
           = Inr (map (\<lambda>r. case hire_date r of None \<Rightarrow> None | Some s \<Rightarrow> to_date s) df)"
    unfolding pd_to_datetime_def collect_coerce by (simp add: comp_def)
  have x: "pd_to_datetime to_date Coerce (map exit_date df)
           = Inr (map (\<lambda>r. case exit_date r of None \<Rightarrow> None | Some s \<Rightarrow> to_date s) df)"
    unfolding pd_to_datetime_def collect_coerce by (simp add: comp_def)
  show ?thesis
    unfolding convert_data_types_def Let_def s m h x
    by (simp add: zip_columns convert_row_def)
qed

lemma clean_strings_rows: "clean_strings u df = map (clean_row u) df"
  by (simp add: clean_strings_def clean_row_def strip_cell_def Let_def comp_def)

lemma standardize_categories_rows: "standardize_categories df = map standardize_row df"
  by (simp add: standardize_categories_def standardize_state_def standardize_country_def
      standardize_currency_def standardize_department_def standardize_gender_def
      standardize_row_def comp_def)

lemma main_steps:
  "main u to_num to_date dt df =
     Inr (remove_duplicates (validate_dates (fix_negative_salaries dt (validate_emails
            (standardize_categories (map (convert_row to_num to_date) (clean_strings u df)))))))"
  by (simp add: main_def convert_data_types_rows)

text \<open>Values of the string functions and of the example parsers that the examples need.\<close>

lemma strip_nan: "strip (ascii ''nan'') = ascii ''nan''"
  by (simp add: strip_def lstrip_def rstrip_def isspace_def ascii_def)

lemma title_nan: "title u (ascii ''nan'') = ascii ''Nan''"
  by (simp add: title_def lower_ucs4_def to_title_full_def to_lower_full_def is_cased_def
      ascii_def)

lemma lower_nan: "lower u (ascii ''nan'') = ascii ''nan''"
  by (simp add: lower_def lower_ucs4_def to_lower_full_def ascii_def)

lemma strip_unknown: "strip (ascii ''unknown'') = ascii ''unknown''"
  by (simp add: strip_def lstrip_def rstrip_def isspace_def ascii_def)

lemma strip_2020: "strip (ascii ''2020-01-01'') = ascii ''2020-01-01''"
  by (simp add: strip_def lstrip_def rstrip_def isspace_def ascii_def)

lemma strip_2021: "strip (ascii ''2021-05-01'') = ascii ''2021-05-01''"
  by (simp add: strip_def lstrip_def rstrip_def isspace_def ascii_def)

lemma iso_date_2020: "iso_date (ascii ''2020-01-01'') = Some 20200101"
  by (simp add: iso_date_def digit_of_def ascii_def)

lemma iso_date_2021: "iso_date (ascii ''2021-05-01'') = Some 20210501"
  by (simp add: iso_date_def digit_of_def ascii_def)

lemma iso_date_unknown: "iso_date (ascii ''unknown'') = None"
  by (simp add: iso_date_def digit_of_def ascii_def)

subsection \<open>Date logic\<close>

lemma validate_dates_rows:
  "validate_dates df =
     map (\<lambda>r. if date_lt (exit_date r) (hire_date r) then r\<lparr>exit_date := None\<rparr> else r) df"
proof (cases "length (filter (\<lambda>r. date_lt (exit_date r) (hire_date r)) df) > 0")
  case True
  then show ?thesis by (simp add: validate_dates_def)
next
  case False
  then have "\<forall>r\<in>set df. \<not> date_lt (exit_date r) (hire_date r)"
    by (simp add: filter_empty_conv)
  then have "map (\<lambda>r. if date_lt (exit_date r) (hire_date r) then r\<lparr>exit_date := None\<rparr> else r) df = df"
    by (simp add: map_idI)
  with False show ?thesis by (simp add: validate_dates_def)
qed

lemma validate_dates_ordered:
  "r \<in> set (validate_dates df) \<Longrightarrow> \<not> date_lt (exit_date r) (hire_date r)"
  unfolding validate_dates_rows by (auto simp: date_lt_def split: if_splits)

text \<open>
  C2, as amended. \<open>validate_dates\<close> resets \<open>exit_date\<close> to the missing marker on exactly
  the rows where \<open>exit_date\<close> and \<open>hire_date\<close> are both present and
  \<open>exit_date < hire_date\<close>, and changes nothing else. After \<open>validate_dates\<close> and
  \<open>remove_duplicates\<close>, and so in every table that the pipeline produces, every row whose
  \<open>exit_date\<close> and \<open>hire_date\<close> are both present has \<open>exit_date \<ge> hire_date\<close>.
\<close>

theorem validate_dates_ordering:
  fixes df :: "('n, timestamp option, 'z) employee_scheme list"
  shows
   "validate_dates df =
      map (\<lambda>r. case (exit_date r, hire_date r) of
                 (Some x, Some h) \<Rightarrow> if x < h then r\<lparr>exit_date := None\<rparr> else r
               | _ \<Rightarrow> r) df
    \<and> (\<forall>r\<in>set (remove_duplicates (validate_dates df)).
          exit_date r \<noteq> None \<and> hire_date r \<noteq> None \<longrightarrow> date_ge (exit_date r) (hire_date r))
    \<and> (\<forall>out. main u to_num to_date dt raw = Inr out \<longrightarrow>
          (\<forall>r\<in>set out.
             exit_date r \<noteq> None \<and> hire_date r \<noteq> None \<longrightarrow> date_ge (exit_date r) (hire_date r)))"
proof -
  have a: "validate_dates df =
      map (\<lambda>r. case (exit_date r, hire_date r) of
                 (Some x, Some h) \<Rightarrow> if x < h then r\<lparr>exit_date := None\<rparr> else r
               | _ \<Rightarrow> r) df"
    unfolding validate_dates_rows
    by (rule map_cong) (auto simp: date_lt_def split: option.splits)
  have b: "exit_date r \<noteq> None \<and> hire_date r \<noteq> None \<longrightarrow> date_ge (exit_date r) (hire_date r)"
    if "r \<in> set (remove_duplicates (validate_dates t))"
    for r :: "('m, timestamp option, 'y) employee_scheme" and t
  proof -
    from that remove_duplicates_subset have "r \<in> set (validate_dates t)" by blast
    then have "\<not> date_lt (exit_date r) (hire_date r)" by (rule validate_dates_ordered)
    then show ?thesis by (auto simp: date_lt_def date_ge_def)
  qed
  have c: "\<forall>r\<in>set (remove_duplicates (validate_dates df)).
          exit_date r \<noteq> None \<and> hire_date r \<noteq> None \<longrightarrow> date_ge (exit_date r) (hire_date r)"
    using b by blast
  have d: "\<forall>out. main u to_num to_date dt raw = Inr out \<longrightarrow>
          (\<forall>r\<in>set out.
             exit_date r \<noteq> None \<and> hire_date r \<noteq> None \<longrightarrow> date_ge (exit_date r) (hire_date r))"
    unfolding main_steps using b by blast
  from a c d show ?thesis by (intro conjI)
qed

theorem validate_dates_ordering_witness:
  "validate_dates [stayed, early] = [stayed, early\<lparr>exit_date := None\<rparr>]
   \<and> stayed \<in> set (remove_duplicates (validate_dates [stayed, early]))
   \<and> exit_date stayed \<noteq> None \<and> hire_date stayed \<noteq> None
   \<and> date_ge (exit_date stayed) (hire_date stayed)"
proof -
  have v: "validate_dates [stayed, early] = [stayed, early\<lparr>exit_date := None\<rparr>]"
    by (simp add: validate_dates_def date_lt_def stayed_def early_def blank_def)
  have m: "stayed \<in> set (remove_duplicates (validate_dates [stayed, early]))"
    unfolding v
    by (simp add: remove_duplicates_def drop_duplicates_def duplicated_def sum_bool_def
        stayed_def early_def blank_def)
  have p: "exit_date stayed \<noteq> None \<and> hire_date stayed \<noteq> None"
    by (simp add: stayed_def blank_def)
  from validate_dates_ordering [of "[stayed, early]"] m p
  have "date_ge (exit_date stayed) (hire_date stayed)" by blast
  with v m p show ?thesis by blast
qed

text \<open>
  The claim as written fails where \<open>hire_date\<close> is missing: the row keeps its
  \<open>exit_date\<close>, and \<open>exit_date \<ge> hire_date\<close> does not hold of it. Here the pipeline
  runs on one row whose \<open>hire_date\<close> is the text \<open>unknown\<close>.
\<close>

theorem validate_dates_ordering_counterexample:
  "map_sum id (map exit_date) (main latin1 decimal_literal iso_date Float64 [undated])
     = Inr [Some 20200101]
   \<and> map_sum id (map hire_date) (main latin1 decimal_literal iso_date Float64 [undated])
     = Inr [None]
   \<and> \<not> date_ge (Some 20200101) None"
  by (simp add: main_steps clean_strings_rows clean_row_def convert_row_def
      standardize_categories_rows standardize_row_def validate_emails_def
      fix_negative_salaries_def validate_dates_def remove_duplicates_def
      duplicated_def sum_bool_def drop_duplicates_def undated_def blank_def with_columns_def
      astype_str_def strip_unknown strip_2020 iso_date_2020 iso_date_unknown
      lt_zero_def date_lt_def date_ge_def employee.defs checked.defs)

subsection \<open>Negative salaries\<close>

lemma series_abs_sign:
  "series_abs dt v = (case v of None \<Rightarrow> None | Some x \<Rightarrow> Some (if x < 0 then \<bar>x\<bar> else x))"
  if "dt = Int64 \<longrightarrow> v \<noteq> Some (- (2 ^ 63))"
  using that by (cases v) (auto simp: series_abs_def)

lemma fix_negative_salaries_rows:
  "fix_negative_salaries dt df =
     map (\<lambda>r. if lt_zero (salary r) then r\<lparr>salary := series_abs dt (salary r)\<rparr> else r) df"
proof (cases "length (filter (\<lambda>r. lt_zero (salary r)) df) > 0")
  case True
  have "(r :: (rat option, 'a, 'b) employee_scheme)\<lparr>salary := series_abs dt (salary r)\<rparr>
        = (if lt_zero (salary r) then r\<lparr>salary := series_abs dt (salary r)\<rparr> else r)" for r
    by (cases "salary r") (auto simp: lt_zero_def series_abs_def)
  then have "map (\<lambda>r. r\<lparr>salary := series_abs dt (salary r)\<rparr>) df
           = map (\<lambda>r. if lt_zero (salary r) then r\<lparr>salary := series_abs dt (salary r)\<rparr> else r) df"
    by simp
  with True show ?thesis by (simp add: fix_negative_salaries_def)
next
  case False
  then have "\<forall>r\<in>set df. \<not> lt_zero (salary r)"
    by (simp add: filter_empty_conv)
  then have "map (\<lambda>r. if lt_zero (salary r) then r\<lparr>salary := series_abs dt (salary r)\<rparr> else r) df = df"
    by (simp add: map_idI)
  with False show ?thesis by (simp add: fix_negative_salaries_def)
qed

lemma fix_negative_salaries_nth:
  assumes "i < length df" and "dt = Int64 \<longrightarrow> salary (df ! i) \<noteq> Some (- (2 ^ 63))"
  shows "fix_negative_salaries dt df ! i =
          (case salary (df ! i) of
             Some x \<Rightarrow> if x < 0 then (df ! i)\<lparr>salary := Some \<bar>x\<bar>\<rparr> else df ! i
           | None \<Rightarrow> df ! i)"
  using assms
  by (cases "salary (df ! i)") (auto simp: fix_negative_salaries_rows lt_zero_def series_abs_def)

lemma fix_negative_salaries_sign:
  assumes "r \<in> set (fix_negative_salaries dt df)" and "salary r \<noteq> None"
    and "dt = Int64 \<longrightarrow> salary r \<noteq> Some (- (2 ^ 63))"
  shows "ge_zero (salary r)"
proof -
  from assms(1) obtain q where q: "q \<in> set df"
    and r: "r = (if lt_zero (salary q) then q\<lparr>salary := series_abs dt (salary q)\<rparr> else q)"
    unfolding fix_negative_salaries_rows by auto
  show ?thesis
  proof (cases "salary q")
    case None
    with r assms(2) show ?thesis by (simp add: lt_zero_def)
  next
    case (Some x)
    with r assms(3) show ?thesis
      by (auto simp: lt_zero_def series_abs_def ge_zero_def split: if_splits)
  qed
qed

lemma validate_dates_salary: "map salary (validate_dates df) = map salary df"
  unfolding validate_dates_rows by (simp add: comp_def)

lemma validate_dates_salary_set:
  "r \<in> set (validate_dates df) \<Longrightarrow> \<exists>q\<in>set df. salary r = salary q"
  unfolding validate_dates_rows by auto

lemma strip_4500: "strip (ascii ''-4500.00'') = ascii ''-4500.00''"
  by (simp add: strip_def lstrip_def rstrip_def isspace_def ascii_def)

lemma commas_4500: "str_replace 0x2C [] (ascii ''-4,500.00'') = ascii ''-4500.00''"
  by (simp add: str_replace_def ascii_def)

lemma decimal_4500: "decimal_literal (ascii ''-4500.00'') = Some (- 4500)"
  by (simp add: decimal_literal_def digit_of_def ascii_def)

text \<open>
  C3, as amended. For every dtype of the salary column, \<open>fix_negative_salaries\<close>
  replaces a salary below zero by its absolute value and changes no other salary, and a
  missing salary stays missing; this is stated of every salary but the least 64-bit
  integer in an \<open>int64\<close> column. After the step, and in every table that the pipeline
  produces, every row whose salary is present and is not that integer has
  \<open>salary \<ge> 0\<close>. A row loaded with the salary text \<open>-4,500.00\<close> has salary \<open>4500\<close>
  after \<open>convert_data_types\<close> and the three validation steps, for every number parser
  that reads \<open>-4500.00\<close> as that number.
\<close>

theorem fix_negative_salaries_nonnegative:
  fixes df :: "(rat option, 'd, 'z) employee_scheme list" and row :: raw_employee
  shows
   "length (fix_negative_salaries dt df) = length df
    \<and> (\<forall>i<length df. (dt = Int64 \<longrightarrow> salary (df ! i) \<noteq> Some (- (2 ^ 63))) \<longrightarrow>
          fix_negative_salaries dt df ! i =
            (case salary (df ! i) of
               Some x \<Rightarrow> if x < 0 then (df ! i)\<lparr>salary := Some \<bar>x\<bar>\<rparr> else df ! i
             | None \<Rightarrow> df ! i))
    \<and> (\<forall>r\<in>set (fix_negative_salaries dt df).
          salary r \<noteq> None \<and> (dt = Int64 \<longrightarrow> salary r \<noteq> Some (- (2 ^ 63)))
            \<longrightarrow> ge_zero (salary r))
    \<and> (\<forall>out. main u to_num to_date dt raw = Inr out \<longrightarrow>
          (\<forall>r\<in>set out.
             salary r \<noteq> None \<and> (dt = Int64 \<longrightarrow> salary r \<noteq> Some (- (2 ^ 63)))
               \<longrightarrow> ge_zero (salary r)))
    \<and> (salary row = Some (ascii ''-4,500.00'') \<and> to_num (ascii ''-4500.00'') = Some (- 4500) \<longrightarrow>
          (\<exists>t. convert_data_types to_num to_date [row] = Inr t
             \<and> map salary (validate_dates (fix_negative_salaries dt (validate_emails t)))
                 = [Some 4500]))"
proof -
  have l: "length (fix_negative_salaries dt df) = length df"
    by (simp add: fix_negative_salaries_rows)
  have a: "\<forall>i<length df. (dt = Int64 \<longrightarrow> salary (df ! i) \<noteq> Some (- (2 ^ 63))) \<longrightarrow>
          fix_negative_salaries dt df ! i =
            (case salary (df ! i) of
               Some x \<Rightarrow> if x < 0 then (df ! i)\<lparr>salary := Some \<bar>x\<bar>\<rparr> else df ! i
             | None \<Rightarrow> df ! i)"
    using fix_negative_salaries_nth by blast
  have c: "\<forall>r\<in>set (fix_negative_salaries dt df).
          salary r \<noteq> None \<and> (dt = Int64 \<longrightarrow> salary r \<noteq> Some (- (2 ^ 63)))
            \<longrightarrow> ge_zero (salary r)"
    using fix_negative_salaries_sign by blast
  have d: "\<forall>out. main u to_num to_date dt raw = Inr out \<longrightarrow>
          (\<forall>r\<in>set out.
             salary r \<noteq> None \<and> (dt = Int64 \<longrightarrow> salary r \<noteq> Some (- (2 ^ 63)))
               \<longrightarrow> ge_zero (salary r))"
  proof (intro allI impI ballI)
    fix out r
    assume o: "main u to_num to_date dt raw = Inr out" and r: "r \<in> set out"
      and p: "salary r \<noteq> None \<and> (dt = Int64 \<longrightarrow> salary r \<noteq> Some (- (2 ^ 63)))"
    from o r remove_duplicates_subset
    have "r \<in> set (validate_dates (fix_negative_salaries dt (validate_emails
            (standardize_categories (map (convert_row to_num to_date) (clean_strings u raw))))))"
      unfolding main_steps by auto
    from validate_dates_salary_set [OF this] obtain q
      where q: "q \<in> set (fix_negative_salaries dt (validate_emails
            (standardize_categories (map (convert_row to_num to_date) (clean_strings u raw)))))"
        and e: "salary r = salary q" by blast
    from fix_negative_salaries_sign [OF q] p e show "ge_zero (salary r)" by simp
  qed
  have e: "salary row = Some (ascii ''-4,500.00'') \<and> to_num (ascii ''-4500.00'') = Some (- 4500) \<longrightarrow>
          (\<exists>t. convert_data_types to_num to_date [row] = Inr t
             \<and> map salary (validate_dates (fix_negative_salaries dt (validate_emails t)))
                 = [Some 4500])"
  proof
    assume h: "salary row = Some (ascii ''-4,500.00'') \<and> to_num (ascii ''-4500.00'') = Some (- 4500)"
    then have s: "salary (convert_row to_num to_date row) = Some (- 4500)"
      by (simp add: convert_row_def with_columns_def astype_str_def commas_4500 strip_4500)
    have "map salary (validate_dates (fix_negative_salaries dt
            (validate_emails [convert_row to_num to_date row]))) = [Some 4500]"
      unfolding validate_dates_salary
      by (simp add: fix_negative_salaries_rows validate_emails_def s lt_zero_def series_abs_def
          employee.defs checked.defs)
    then show "\<exists>t. convert_data_types to_num to_date [row] = Inr t
             \<and> map salary (validate_dates (fix_negative_salaries dt (validate_emails t)))
                 = [Some 4500]"
      by (simp add: convert_data_types_rows)
  qed
  show ?thesis by (rule conjI [OF l conjI [OF a conjI [OF c conjI [OF d e]]]])
qed

lemma strip_4500c: "strip (ascii ''-4,500.00'') = ascii ''-4,500.00''"
  by (simp add: strip_def lstrip_def rstrip_def isspace_def ascii_def)

theorem fix_negative_salaries_nonnegative_witness:
  "fix_negative_salaries Float64 [owing, earning, ann] ! 0 = owing\<lparr>salary := Some 100\<rparr>
   \<and> fix_negative_salaries Float64 [owing, earning, ann] ! 1 = earning
   \<and> fix_negative_salaries Float64 [owing, earning, ann] ! 2 = ann
   \<and> salary ([owing, earning] ! 0) \<noteq> Some (- (2 ^ 63))
   \<and> fix_negative_salaries Int64 [owing, earning] ! 0 = owing\<lparr>salary := Some 100\<rparr>
   \<and> earning \<in> set (fix_negative_salaries Int64 [owing, earning])
   \<and> salary earning \<noteq> None \<and> salary earning \<noteq> Some (- (2 ^ 63)) \<and> ge_zero (salary earning)
   \<and> map_sum id (map salary) (main latin1 decimal_literal iso_date Int64 [indebted]) = Inr [Some 4500]
   \<and> ge_zero (Some 4500)
   \<and> salary indebted = Some (ascii ''-4,500.00'')
   \<and> decimal_literal (ascii ''-4500.00'') = Some (- 4500)
   \<and> (\<exists>t. convert_data_types decimal_literal iso_date [indebted] = Inr t
          \<and> map salary (validate_dates (fix_negative_salaries Int64 (validate_emails t)))
              = [Some 4500])"
proof -
  note f = fix_negative_salaries_nonnegative
    [of Float64 "[owing, earning, ann]" latin1 decimal_literal iso_date "[]" indebted]
  note t = fix_negative_salaries_nonnegative
    [of Int64 "[owing, earning]" latin1 decimal_literal iso_date "[indebted]" indebted]
  note n = f [THEN conjunct2, THEN conjunct1, rule_format]
  have v0: "fix_negative_salaries Float64 [owing, earning, ann] ! 0 = owing\<lparr>salary := Some 100\<rparr>"
    using n [of 0] by (simp add: owing_def blank_def)
  have v1: "fix_negative_salaries Float64 [owing, earning, ann] ! 1 = earning"
    using n [of 1] by (simp add: earning_def blank_def)
  have v2: "fix_negative_salaries Float64 [owing, earning, ann] ! 2 = ann"
    using n [of 2] by (simp add: ann_def blank_def)
  have b: "salary ([owing, earning] ! 0) \<noteq> Some (- (2 ^ 63))"
    by (simp add: owing_def blank_def)
  have b1: "salary ([owing, earning] ! 1) \<noteq> Some (- (2 ^ 63))"
    by (simp add: earning_def blank_def)
  note k = t [THEN conjunct2, THEN conjunct1, rule_format]
  have i0: "fix_negative_salaries Int64 [owing, earning] ! 0 = owing\<lparr>salary := Some 100\<rparr>"
    using k [of 0] b by (simp add: owing_def blank_def)
  have i1: "fix_negative_salaries Int64 [owing, earning] ! 1 = earning"
    using k [of 1] b1 by (simp add: earning_def blank_def)
  have "fix_negative_salaries Int64 [owing, earning] ! 1
      \<in> set (fix_negative_salaries Int64 [owing, earning])"
    using t [THEN conjunct1] by (intro nth_mem) simp
  then have m: "earning \<in> set (fix_negative_salaries Int64 [owing, earning])"
    unfolding i1 .
  have p: "salary earning \<noteq> None" and p': "salary earning \<noteq> Some (- (2 ^ 63))"
    by (simp_all add: earning_def blank_def)
  from t [THEN conjunct2, THEN conjunct2, THEN conjunct1, rule_format, OF m] p p'
  have g: "ge_zero (salary earning)" by simp
  have ms: "map_sum id (map salary) (main latin1 decimal_literal iso_date Int64 [indebted])
      = Inr [Some 4500]"
    by (simp add: main_steps clean_strings_rows clean_row_def convert_row_def
        standardize_categories_rows standardize_row_def
        validate_emails_def fix_negative_salaries_def validate_dates_def remove_duplicates_def
        duplicated_def sum_bool_def drop_duplicates_def indebted_def blank_def with_columns_def
        astype_str_def strip_4500c strip_4500 commas_4500 decimal_4500 strip_nan series_abs_def
        lt_zero_def date_lt_def employee.defs checked.defs)
  then obtain out where o: "main latin1 decimal_literal iso_date Int64 [indebted] = Inr out"
    and so: "map salary out = [Some 4500]"
    by (cases "main latin1 decimal_literal iso_date Int64 [indebted]") auto
  from so obtain r where r: "r \<in> set out" and sr: "salary r = Some 4500" by auto
  from sr have "salary r \<noteq> None \<and> (Int64 = Int64 \<longrightarrow> salary r \<noteq> Some (- (2 ^ 63)))" by simp
  with t [THEN conjunct2, THEN conjunct2, THEN conjunct2, THEN conjunct1, rule_format, OF o r]
  have "ge_zero (salary r)" by blast
  then have z: "ge_zero (Some 4500)" unfolding sr .
  have s: "salary indebted = Some (ascii ''-4,500.00'')"
    by (simp add: indebted_def blank_def)
  from t [THEN conjunct2, THEN conjunct2, THEN conjunct2, THEN conjunct2] s decimal_4500
  have x: "\<exists>t. convert_data_types decimal_literal iso_date [indebted] = Inr t
          \<and> map salary (validate_dates (fix_negative_salaries Int64 (validate_emails t)))
              = [Some 4500]" by blast
  from v0 v1 v2 b i0 m p p' g ms z s decimal_4500 x show ?thesis by (intro conjI)
qed

lemma strip_na: "strip (ascii ''n/a'') = ascii ''n/a''"
  by (simp add: strip_def lstrip_def rstrip_def isspace_def ascii_def)

lemma commas_na: "str_replace 0x2C [] (ascii ''n/a'') = ascii ''n/a''"
  by (simp add: str_replace_def ascii_def)

lemma decimal_na: "decimal_literal (ascii ''n/a'') = None"
  by (simp add: decimal_literal_def digit_of_def ascii_def)

text \<open>
  The claim as written fails where the salary is missing: a salary text that is no number
  is coerced to the missing marker, which the step keeps, and \<open>salary \<ge> 0\<close> does not
  hold of it.
\<close>

theorem fix_negative_salaries_nonnegative_counterexample:
  "map_sum id (map salary) (main latin1 decimal_literal iso_date Float64 [unpaid]) = Inr [None]
   \<and> \<not> ge_zero None"
  by (simp add: main_steps clean_strings_rows clean_row_def convert_row_def
      standardize_categories_rows standardize_row_def
      validate_emails_def fix_negative_salaries_def validate_dates_def remove_duplicates_def
      duplicated_def sum_bool_def drop_duplicates_def unpaid_def blank_def with_columns_def
      astype_str_def strip_na commas_na decimal_na strip_nan series_abs_def
      lt_zero_def date_lt_def ge_zero_def employee.defs checked.defs)

text \<open>
  The salary the amended claim leaves out: in an \<open>int64\<close> column the least 64-bit
  integer stays what it is, and below zero.
\<close>

lemma fix_negative_salaries_wraps:
  "fix_negative_salaries Int64 [bottomless] = [bottomless] \<and> lt_zero (salary bottomless)"
  by (simp add: fix_negative_salaries_def series_abs_def lt_zero_def bottomless_def blank_def)

subsection \<open>Data type conversions\<close>

text \<open>
  C5, as amended. \<open>convert_data_types\<close> raises no error: for every table and every pair
  of parsers it returns a table with one row for each input row, in which
  \<^item> the salary is what the number parser reads in the salary text after the removal of
    the commas and of the outer white space, and is missing if the parser reads none;
  \<^item> the manager id is what the number parser reads in the manager id text, so it is
    missing if the text parses as no number (it need not be an integer);
  \<^item> each date is what the date parser reads, and is missing if it reads none.
\<close>

theorem convert_data_types_coerces:
  "\<exists>t. convert_data_types to_num to_date df = Inr t \<and> length t = length df
     \<and> (\<forall>i<length df.
           salary (t ! i) = to_num (strip (str_replace 0x2C [] (astype_str (salary (df ! i)))))
         \<and> manager_id (t ! i) = (case manager_id (df ! i) of None \<Rightarrow> None | Some s \<Rightarrow> to_num s)
         \<and> hire_date (t ! i) = (case hire_date (df ! i) of None \<Rightarrow> None | Some s \<Rightarrow> to_date s)
         \<and> exit_date (t ! i) = (case exit_date (df ! i) of None \<Rightarrow> None | Some s \<Rightarrow> to_date s)
         \<and> (to_num (strip (str_replace 0x2C [] (astype_str (salary (df ! i))))) = None
              \<longrightarrow> salary (t ! i) = None)
         \<and> (\<forall>s. manager_id (df ! i) = Some s \<and> to_num s = None \<longrightarrow> manager_id (t ! i) = None)
         \<and> (\<forall>s. hire_date (df ! i) = Some s \<and> to_date s = None \<longrightarrow> hire_date (t ! i) = None)
         \<and> (\<forall>s. exit_date (df ! i) = Some s \<and> to_date s = None \<longrightarrow> exit_date (t ! i) = None))"
proof (intro exI conjI allI impI)
  show "convert_data_types to_num to_date df = Inr (map (convert_row to_num to_date) df)"
    by (rule convert_data_types_rows)
qed (auto simp: convert_row_def with_columns_def)

text \<open>The other mode of the library call would raise on the same cell.\<close>

lemma pd_to_numeric_raise: "pd_to_numeric decimal_literal Raise [Some (ascii ''n/a'')] = Inl ValueError"
  by (simp add: pd_to_numeric_def parse_cell_def decimal_na)

lemma decimal_none: "decimal_literal (ascii ''none'') = None"
  by (simp add: decimal_literal_def digit_of_def ascii_def)

lemma iso_date_tbd: "iso_date (ascii ''tbd'') = None"
  by (simp add: iso_date_def ascii_def)

theorem convert_data_types_coerces_witness:
  "decimal_literal (strip (str_replace 0x2C [] (astype_str (salary garbled)))) = None
   \<and> manager_id garbled = Some (ascii ''none'') \<and> decimal_literal (ascii ''none'') = None
   \<and> hire_date garbled = Some (ascii ''unknown'') \<and> iso_date (ascii ''unknown'') = None
   \<and> exit_date garbled = Some (ascii ''tbd'') \<and> iso_date (ascii ''tbd'') = None
   \<and> (\<exists>t. convert_data_types decimal_literal iso_date [garbled] = Inr t \<and> length t = 1
         \<and> salary (t ! 0) = None \<and> manager_id (t ! 0) = None
         \<and> hire_date (t ! 0) = None \<and> exit_date (t ! 0) = None)"
proof -
  have s: "decimal_literal (strip (str_replace 0x2C [] (astype_str (salary garbled)))) = None"
    by (simp add: garbled_def blank_def astype_str_def commas_na strip_na decimal_na)
  have m: "manager_id garbled = Some (ascii ''none'')" and h: "hire_date garbled = Some (ascii ''unknown'')"
    and x: "exit_date garbled = Some (ascii ''tbd'')"
    by (simp_all add: garbled_def blank_def)
  from convert_data_types_coerces [of decimal_literal iso_date "[garbled]"]
  obtain t where t: "convert_data_types decimal_literal iso_date [garbled] = Inr t"
    and l: "length t = length [garbled]"
    and c: "\<forall>i<length [garbled].
           salary (t ! i) = decimal_literal (strip (str_replace 0x2C [] (astype_str (salary ([garbled] ! i)))))
         \<and> manager_id (t ! i) = (case manager_id ([garbled] ! i) of None \<Rightarrow> None | Some s \<Rightarrow> decimal_literal s)
         \<and> hire_date (t ! i) = (case hire_date ([garbled] ! i) of None \<Rightarrow> None | Some s \<Rightarrow> iso_date s)
         \<and> exit_date (t ! i) = (case exit_date ([garbled] ! i) of None \<Rightarrow> None | Some s \<Rightarrow> iso_date s)
         \<and> (decimal_literal (strip (str_replace 0x2C [] (astype_str (salary ([garbled] ! i))))) = None
              \<longrightarrow> salary (t ! i) = None)
         \<and> (\<forall>s. manager_id ([garbled] ! i) = Some s \<and> decimal_literal s = None \<longrightarrow> manager_id (t ! i) = None)
         \<and> (\<forall>s. hire_date ([garbled] ! i) = Some s \<and> iso_date s = None \<longrightarrow> hire_date (t ! i) = None)
         \<and> (\<forall>s. exit_date ([garbled] ! i) = Some s \<and> iso_date s = None \<longrightarrow> exit_date (t ! i) = None)"
    by blast
  from c have c0: "(decimal_literal (strip (str_replace 0x2C [] (astype_str (salary garbled)))) = None
              \<longrightarrow> salary (t ! 0) = None)
         \<and> (\<forall>s. manager_id garbled = Some s \<and> decimal_literal s = None \<longrightarrow> manager_id (t ! 0) = None)
         \<and> (\<forall>s. hire_date garbled = Some s \<and> iso_date s = None \<longrightarrow> hire_date (t ! 0) = None)
         \<and> (\<forall>s. exit_date garbled = Some s \<and> iso_date s = None \<longrightarrow> exit_date (t ! 0) = None)"
    by simp
  from c0 s m h x decimal_none iso_date_unknown iso_date_tbd
  have "salary (t ! 0) = None \<and> manager_id (t ! 0) = None
         \<and> hire_date (t ! 0) = None \<and> exit_date (t ! 0) = None" by blast
  with t l s m h x decimal_none iso_date_unknown iso_date_tbd show ?thesis by auto
qed

lemma decimal_half: "decimal_literal (ascii ''3.5'') = Some (7 / 2)"
  by (simp add: decimal_literal_def digit_of_def ascii_def)

lemma integer_half: "integer_literal (ascii ''3.5'') = None"
  by (simp add: integer_literal_def digit_of_def ascii_def)

text \<open>
  The claim as written fails on the manager id: the text \<open>3.5\<close> is no integer literal,
  and the step keeps it as the number 3.5 instead of the missing marker.
\<close>

theorem convert_data_types_coerces_counterexample:
  "integer_literal (ascii ''3.5'') = None
   \<and> map_sum id (map manager_id) (convert_data_types decimal_literal iso_date [half_managed])
       = Inr [Some (7 / 2)]"
  by (simp add: convert_data_types_rows convert_row_def with_columns_def half_managed_def
      blank_def decimal_half integer_half)

subsection \<open>Email validation\<close>

lemma ascii_at: "ascii ''@'' = [0x40]"
  by (simp add: ascii_def)

lemma ascii_dot: "ascii ''.'' = [0x2E]"
  by (simp add: ascii_def)

lemma re_match_one:
  "re_match (One a # ps) s \<longleftrightarrow> (\<exists>c y. s = c # y \<and> atom_matches a c \<and> re_match ps y)"
  by (cases s) auto

lemma re_match_plus:
  "re_match (OneOrMore a # ps) s \<longleftrightarrow>
     (\<exists>x y. s = x @ y \<and> x \<noteq> [] \<and> (\<forall>c\<in>set x. atom_matches a c) \<and> re_match ps y)"
proof (induction s)
  case Nil
  show ?case by simp
next
  case (Cons c cs)
  show ?case
  proof
    assume "re_match (OneOrMore a # ps) (c # cs)"
    then have m: "atom_matches a c"
      and d: "re_match (OneOrMore a # ps) cs \<or> re_match ps cs" by simp_all
    from d show "\<exists>x y. c # cs = x @ y \<and> x \<noteq> [] \<and> (\<forall>c\<in>set x. atom_matches a c) \<and> re_match ps y"
    proof
      assume "re_match (OneOrMore a # ps) cs"
      with Cons.IH obtain x y where "cs = x @ y" "\<forall>c\<in>set x. atom_matches a c" "re_match ps y"
        by blast
      with m have "c # cs = (c # x) @ y \<and> c # x \<noteq> [] \<and> (\<forall>c\<in>set (c # x). atom_matches a c)
          \<and> re_match ps y" by simp
      then show ?thesis by blast
    next
      assume "re_match ps cs"
      with m have "c # cs = [c] @ cs \<and> [c] \<noteq> [] \<and> (\<forall>c\<in>set [c]. atom_matches a c)
          \<and> re_match ps cs" by simp
      then show ?thesis by blast
    qed
  next
    assume "\<exists>x y. c # cs = x @ y \<and> x \<noteq> [] \<and> (\<forall>c\<in>set x. atom_matches a c) \<and> re_match ps y"
    then obtain x y where e: "c # cs = x @ y" and n: "x \<noteq> []"
      and a: "\<forall>c\<in>set x. atom_matches a c" and r: "re_match ps y" by blast
    from n obtain x' where x: "x = c # x'" using e by (cases x) auto
    with e have cs: "cs = x' @ y" by simp
    from a x have m: "atom_matches a c" and a': "\<forall>c\<in>set x'. atom_matches a c" by simp_all
    show "re_match (OneOrMore a # ps) (c # cs)"
    proof (cases "x' = []")
      case True
      with cs r m show ?thesis by simp
    next
      case False
      with cs a' r Cons.IH have "re_match (OneOrMore a # ps) cs" by blast
      with m show ?thesis by simp
    qed
  qed
qed

lemma email_pattern_shape:
  "re_match email_pattern s \<longleftrightarrow>
     (\<exists>p t u rest. s = p @ ascii ''@'' @ t @ ascii ''.'' @ u @ rest \<and> p \<noteq> [] \<and> t \<noteq> [] \<and> u \<noteq> []
        \<and> 0x0A \<notin> set p \<and> 0x0A \<notin> set t \<and> 0x0A \<notin> set u)"
proof
  assume "re_match email_pattern s"
  then obtain p y1 where 1: "s = p @ y1" "p \<noteq> []" "\<forall>c\<in>set p. atom_matches Dot c"
    and r1: "re_match [One (Lit 0x40), OneOrMore Dot, One (Lit 0x2E), OneOrMore Dot] y1"
    unfolding email_pattern_def re_match_plus [of Dot] by blast
  from r1 obtain y2 where 2: "y1 = 0x40 # y2"
    and r2: "re_match [OneOrMore Dot, One (Lit 0x2E), OneOrMore Dot] y2"
    unfolding re_match_one by auto
  from r2 obtain t y3 where 3: "y2 = t @ y3" "t \<noteq> []" "\<forall>c\<in>set t. atom_matches Dot c"
    and r3: "re_match [One (Lit 0x2E), OneOrMore Dot] y3"
    unfolding re_match_plus [of Dot] by blast
  from r3 obtain y4 where 4: "y3 = 0x2E # y4" and r4: "re_match [OneOrMore Dot] y4"
    unfolding re_match_one by auto
  from r4 obtain u rest where 5: "y4 = u @ rest" "u \<noteq> []" "\<forall>c\<in>set u. atom_matches Dot c"
    unfolding re_match_plus [of Dot] by blast
  from 1 2 3 4 5 have "s = p @ ascii ''@'' @ t @ ascii ''.'' @ u @ rest \<and> p \<noteq> [] \<and> t \<noteq> [] \<and> u \<noteq> []
        \<and> 0x0A \<notin> set p \<and> 0x0A \<notin> set t \<and> 0x0A \<notin> set u" by (auto simp: ascii_at ascii_dot)
  then show "\<exists>p t u rest. s = p @ ascii ''@'' @ t @ ascii ''.'' @ u @ rest \<and> p \<noteq> [] \<and> t \<noteq> [] \<and> u \<noteq> []
        \<and> 0x0A \<notin> set p \<and> 0x0A \<notin> set t \<and> 0x0A \<notin> set u" by blast
next
  assume "\<exists>p t u rest. s = p @ ascii ''@'' @ t @ ascii ''.'' @ u @ rest \<and> p \<noteq> [] \<and> t \<noteq> [] \<and> u \<noteq> []
        \<and> 0x0A \<notin> set p \<and> 0x0A \<notin> set t \<and> 0x0A \<notin> set u"
  then obtain p t u rest where s: "s = p @ ascii ''@'' @ t @ ascii ''.'' @ u @ rest"
    and n: "p \<noteq> []" "t \<noteq> []" "u \<noteq> []"
    and l: "0x0A \<notin> set p" "0x0A \<notin> set t" "0x0A \<notin> set u" by blast
  have r5: "re_match [OneOrMore Dot] (u @ rest)"
    unfolding re_match_plus [of Dot] using n l by auto
  then have r4: "re_match [One (Lit 0x2E), OneOrMore Dot] (ascii ''.'' @ u @ rest)" by (simp add: ascii_at ascii_dot)
  have r3: "re_match [OneOrMore Dot, One (Lit 0x2E), OneOrMore Dot] (t @ ascii ''.'' @ u @ rest)"
  proof -
    from n l r4 have "t @ ascii ''.'' @ u @ rest = t @ (ascii ''.'' @ u @ rest) \<and> t \<noteq> []
        \<and> (\<forall>c\<in>set t. atom_matches Dot c)
        \<and> re_match [One (Lit 0x2E), OneOrMore Dot] (ascii ''.'' @ u @ rest)" by (auto simp: ascii_at ascii_dot)
    then show ?thesis unfolding re_match_plus [of Dot] by blast
  qed
  then have r2: "re_match [One (Lit 0x40), OneOrMore Dot, One (Lit 0x2E), OneOrMore Dot]
      (ascii ''@'' @ t @ ascii ''.'' @ u @ rest)" by (simp add: ascii_at ascii_dot)
  from n l r2 have "s = p @ (ascii ''@'' @ t @ ascii ''.'' @ u @ rest) \<and> p \<noteq> []
      \<and> (\<forall>c\<in>set p. atom_matches Dot c)
      \<and> re_match [One (Lit 0x40), OneOrMore Dot, One (Lit 0x2E), OneOrMore Dot]
           (ascii ''@'' @ t @ ascii ''.'' @ u @ rest)" using s by (auto simp: ascii_at ascii_dot)
  then show "re_match email_pattern s"
    unfolding email_pattern_def re_match_plus [of Dot] by blast
qed

lemma email_pattern_one_line:
  assumes "0x0A \<notin> set s"
  shows "re_match email_pattern s \<longleftrightarrow>
     (\<exists>p t u. s = p @ ascii ''@'' @ t @ ascii ''.'' @ u \<and> p \<noteq> [] \<and> t \<noteq> [] \<and> u \<noteq> [])"
proof
  assume "re_match email_pattern s"
  then obtain p t u rest where "s = p @ ascii ''@'' @ t @ ascii ''.'' @ (u @ rest)" "p \<noteq> []" "t \<noteq> []" "u @ rest \<noteq> []"
    unfolding email_pattern_shape by (auto simp: ascii_at ascii_dot)
  then show "\<exists>p t u. s = p @ ascii ''@'' @ t @ ascii ''.'' @ u \<and> p \<noteq> [] \<and> t \<noteq> [] \<and> u \<noteq> []" by blast
next
  assume "\<exists>p t u. s = p @ ascii ''@'' @ t @ ascii ''.'' @ u \<and> p \<noteq> [] \<and> t \<noteq> [] \<and> u \<noteq> []"
  then obtain p t u where s: "s = p @ ascii ''@'' @ t @ ascii ''.'' @ u @ []" and n: "p \<noteq> []" "t \<noteq> []" "u \<noteq> []"
    by (auto simp: ascii_at ascii_dot)
  from assms s have "0x0A \<notin> set p \<and> 0x0A \<notin> set t \<and> 0x0A \<notin> set u" by (auto simp: ascii_at ascii_dot)
  with s n show "re_match email_pattern s" unfolding email_pattern_shape by blast
qed

lemma not_an_email: "\<not> re_match email_pattern (ascii ''not-an-email'')"
  by (simp add: email_pattern_def ascii_def)

lemma validate_emails_nth:
  "i < length df \<Longrightarrow> email_valid (validate_emails df ! i) = str_match email_pattern False (email (df ! i))"
  by (simp add: validate_emails_def employee.defs checked.defs)

lemma validate_emails_truncate: "map employee.truncate (validate_emails df) = df"
  by (induction df) (simp_all add: validate_emails_def employee.defs checked.defs)

text \<open>
  C4, as amended. \<open>validate_emails\<close> keeps every row, unchanged and in place, and adds
  the flag. The flag is true if and only if the email is present and begins with a
  non-empty prefix, an \<open>@\<close>, a non-empty text, a dot and at least one more character, with
  no line feed in any of the three parts (the pattern's dot does not match a line feed,
  and the pattern is anchored at the start only). For an email without line feed this is:
  a non-empty prefix, an \<open>@\<close>, a non-empty text, a dot, a non-empty suffix. The email
  \<open>not-an-email\<close> is flagged false.
\<close>

theorem validate_emails_flags:
  fixes df :: "('n, 'd) employee list"
  shows
   "map employee.truncate (validate_emails df) = df
    \<and> (\<forall>i<length df. email_valid (validate_emails df ! i) \<longleftrightarrow>
          (\<exists>p t u rest. email (df ! i) = Some (p @ ascii ''@'' @ t @ ascii ''.'' @ u @ rest)
              \<and> p \<noteq> [] \<and> t \<noteq> [] \<and> u \<noteq> []
              \<and> 0x0A \<notin> set p \<and> 0x0A \<notin> set t \<and> 0x0A \<notin> set u))
    \<and> (\<forall>i<length df. \<forall>s. email (df ! i) = Some s \<and> 0x0A \<notin> set s \<longrightarrow>
          (email_valid (validate_emails df ! i) \<longleftrightarrow>
             (\<exists>p t u. s = p @ ascii ''@'' @ t @ ascii ''.'' @ u \<and> p \<noteq> [] \<and> t \<noteq> [] \<and> u \<noteq> [])))
    \<and> (\<forall>i<length df. email (df ! i) = Some (ascii ''not-an-email'') \<longrightarrow>
          \<not> email_valid (validate_emails df ! i))"
proof -
  have a: "\<forall>i<length df. email_valid (validate_emails df ! i) \<longleftrightarrow>
          (\<exists>p t u rest. email (df ! i) = Some (p @ ascii ''@'' @ t @ ascii ''.'' @ u @ rest)
              \<and> p \<noteq> [] \<and> t \<noteq> [] \<and> u \<noteq> []
              \<and> 0x0A \<notin> set p \<and> 0x0A \<notin> set t \<and> 0x0A \<notin> set u)"
  proof (intro allI impI)
    fix i assume i: "i < length df"
    show "email_valid (validate_emails df ! i) \<longleftrightarrow>
          (\<exists>p t u rest. email (df ! i) = Some (p @ ascii ''@'' @ t @ ascii ''.'' @ u @ rest)
              \<and> p \<noteq> [] \<and> t \<noteq> [] \<and> u \<noteq> []
              \<and> 0x0A \<notin> set p \<and> 0x0A \<notin> set t \<and> 0x0A \<notin> set u)"
    proof (cases "email (df ! i)")
      case None
      with i show ?thesis by (simp add: validate_emails_nth str_match_def)
    next
      case (Some s)
      with i have "email_valid (validate_emails df ! i) = re_match email_pattern s"
        by (simp add: validate_emails_nth str_match_def)
      then show ?thesis unfolding email_pattern_shape Some by auto
    qed
  qed
  have b: "\<forall>i<length df. \<forall>s. email (df ! i) = Some s \<and> 0x0A \<notin> set s \<longrightarrow>
          (email_valid (validate_emails df ! i) \<longleftrightarrow>
             (\<exists>p t u. s = p @ ascii ''@'' @ t @ ascii ''.'' @ u \<and> p \<noteq> [] \<and> t \<noteq> [] \<and> u \<noteq> []))"
    using email_pattern_one_line by (simp add: validate_emails_nth str_match_def)
  have c: "\<forall>i<length df. email (df ! i) = Some (ascii ''not-an-email'') \<longrightarrow>
          \<not> email_valid (validate_emails df ! i)"
    using not_an_email by (simp add: validate_emails_nth str_match_def)
  from validate_emails_truncate [of df] a b c show ?thesis by (intro conjI)
qed

theorem validate_emails_flags_witness:
  "email ([reachable, no_email] ! 0) = Some (ascii ''ann@example.org'')
   \<and> 0x0A \<notin> set (ascii ''ann@example.org'')
   \<and> email_valid (validate_emails [reachable, no_email] ! 0)
   \<and> email ([reachable, no_email] ! 1) = Some (ascii ''not-an-email'')
   \<and> \<not> email_valid (validate_emails [reachable, no_email] ! 1)
   \<and> map employee.truncate (validate_emails [reachable, no_email]) = [reachable, no_email]"
proof -
  note t = validate_emails_flags [of "[reachable, no_email]"]
  have e0: "email ([reachable, no_email] ! 0) = Some (ascii ''ann@example.org'')"
    by (simp add: reachable_def blank_def)
  have e1: "email ([reachable, no_email] ! 1) = Some (ascii ''not-an-email'')"
    by (simp add: no_email_def blank_def)
  have n: "0x0A \<notin> set (ascii ''ann@example.org'')" by (simp add: ascii_def)
  have "ascii ''ann@example.org'' = ascii ''ann'' @ ascii ''@'' @ ascii ''example'' @ ascii ''.'' @ ascii ''org''
      \<and> ascii ''ann'' \<noteq> [] \<and> ascii ''example'' \<noteq> [] \<and> ascii ''org'' \<noteq> []" by (simp add: ascii_def)
  then have s: "\<exists>p t u. ascii ''ann@example.org'' = p @ ascii ''@'' @ t @ ascii ''.'' @ u \<and> p \<noteq> [] \<and> t \<noteq> [] \<and> u \<noteq> []"
    by blast
  have l0: "0 < length [reachable, no_email]" and l1: "1 < length [reachable, no_email]" by simp_all
  from t l0 e0 n s have v0: "email_valid (validate_emails [reachable, no_email] ! 0)" by blast
  from t l1 e1 have v1: "\<not> email_valid (validate_emails [reachable, no_email] ! 1)" by blast
  from t have k: "map employee.truncate (validate_emails [reachable, no_email]) = [reachable, no_email]"
    by blast
  from e0 n v0 e1 v1 k show ?thesis by (intro conjI)
qed

text \<open>
  The claim as written fails on an email with a line feed in its prefix: it has a
  non-empty prefix, an \<open>@\<close>, a non-empty text, a dot and a non-empty suffix, and is
  flagged false.
\<close>

theorem validate_emails_flags_counterexample:
  "map email_valid (validate_emails [two_line]) = [False]
   \<and> email two_line = Some ([0x61, 0x0A, 0x62] @ ascii ''@'' @ ascii ''c'' @ ascii ''.'' @ ascii ''d'')"
  by (simp add: validate_emails_def str_match_def email_pattern_def two_line_def blank_def
      ascii_def employee.defs checked.defs)

subsection \<open>String cleaning\<close>

lemma rstrip_prefix: "rstrip s @ rev (takeWhile isspace (rev s)) = s"
proof -
  have "rev (takeWhile isspace (rev s) @ dropWhile isspace (rev s)) = s" by simp
  then show ?thesis unfolding rstrip_def rev_append .
qed

lemma rstrip_last: "rstrip s \<noteq> [] \<Longrightarrow> \<not> isspace (last (rstrip s))"
  unfolding rstrip_def using hd_dropWhile [of isspace "rev s"] by (simp add: last_rev)

lemma rstrip_hd: "rstrip s \<noteq> [] \<Longrightarrow> hd (rstrip s) = hd s"
  using rstrip_prefix [of s] hd_append2 [of "rstrip s" "rev (takeWhile isspace (rev s))"] by simp

lemma lstrip_hd: "lstrip s \<noteq> [] \<Longrightarrow> \<not> isspace (hd (lstrip s))"
  unfolding lstrip_def by (rule hd_dropWhile)

lemma trimmed_strip: "trimmed (strip s)"
proof (cases "strip s = []")
  case True
  then show ?thesis by (simp add: trimmed_def)
next
  case False
  then have n: "rstrip (lstrip s) \<noteq> []" by (simp add: strip_def)
  then have "lstrip s \<noteq> []" by (auto simp: rstrip_def)
  with n show ?thesis
    unfolding trimmed_def strip_def using rstrip_hd [OF n] rstrip_last [OF n] lstrip_hd by simp
qed

lemma strip_trimmed: "trimmed s \<Longrightarrow> strip s = s"
proof (cases "s = []")
  case True
  then show ?thesis by (simp add: strip_def lstrip_def rstrip_def)
next
  case False
  assume "trimmed s"
  with False have h: "\<not> isspace (hd s)" and l: "\<not> isspace (last s)" by (simp_all add: trimmed_def)
  from h have a: "lstrip s = s" by (simp add: lstrip_def dropWhile_eq_self_iff)
  from l False have "dropWhile isspace (rev s) = rev s"
    by (simp add: dropWhile_eq_self_iff hd_rev)
  then have "rstrip s = s" by (simp add: rstrip_def)
  with a show ?thesis by (simp add: strip_def)
qed

lemma strip_strip: "strip (strip s) = strip s"
  by (rule strip_trimmed) (rule trimmed_strip)









lemma to_lower_ascii: "0x41 \<le> c \<and> c \<le> 0x5A \<Longrightarrow> to_lower_full u c = [c + 32]"
  by (simp add: to_lower_full_def)















lemma strip_emile: "strip (0xA0 # 0xE9 # ascii ''mile'' @ [0xA0]) = 0xE9 # ascii ''mile''"
  by (simp add: strip_def lstrip_def rstrip_def isspace_def ascii_def)

lemma title_emile: "title latin1 (0xE9 # ascii ''mile'') = 0xC9 # ascii ''mile''"
  by (simp add: title_def to_title_full_def lower_ucs4_def to_lower_full_def is_cased_def
      latin1_def ascii_def)









text \<open>
  \<open>str.title()\<close> does more than capitalize the first letter of a word: a letter after a
  character that is no letter is a capital too, and every other letter is lowercased.
\<close>

lemma title_inside_word:
  "title u (ascii ''o'brien'') = ascii ''O'Brien''
   \<and> title u (ascii ''mcDONALD'') = ascii ''Mcdonald''"
  by (simp add: title_def to_title_full_def lower_ucs4_def to_lower_full_def is_cased_def
      ascii_def)

text \<open>White space that is not ASCII is trimmed, and a letter that is not ASCII is cased.\<close>

lemma clean_strings_latin1:
  "map first_name (clean_strings latin1 [messy]) = [Some (0xC9 # ascii ''mile'')]"
  by (simp add: clean_strings_rows clean_row_def messy_def blank_def astype_str_def
      strip_emile title_emile)

subsection \<open>Missing text\<close>

lemma nan_no_email: "\<not> re_match email_pattern (ascii ''nan'')"
  by (simp add: email_pattern_def ascii_def)

lemma clean_row_missing:
  "(first_name r = None \<longrightarrow> first_name (clean_row u r) = Some (ascii ''Nan''))
   \<and> (last_name r = None \<longrightarrow> last_name (clean_row u r) = Some (ascii ''Nan''))
   \<and> (city r = None \<longrightarrow> city (clean_row u r) = Some (ascii ''Nan''))
   \<and> (email r = None \<longrightarrow> email (clean_row u r) = Some (ascii ''nan''))
   \<and> (gender r = None \<longrightarrow> gender (clean_row u r) = Some (ascii ''nan''))
   \<and> (department r = None \<longrightarrow> department (clean_row u r) = Some (ascii ''nan''))
   \<and> (currency r = None \<longrightarrow> currency (clean_row u r) = Some (ascii ''nan''))
   \<and> (country r = None \<longrightarrow> country (clean_row u r) = Some (ascii ''nan''))
   \<and> (state r = None \<longrightarrow> state (clean_row u r) = Some (ascii ''nan''))
   \<and> (salary r = None \<longrightarrow> salary (clean_row u r) = Some (ascii ''nan''))
   \<and> (manager_id r = None \<longrightarrow> manager_id (clean_row u r) = Some (ascii ''nan''))
   \<and> (hire_date r = None \<longrightarrow> hire_date (clean_row u r) = Some (ascii ''nan''))
   \<and> (exit_date r = None \<longrightarrow> exit_date (clean_row u r) = Some (ascii ''nan''))"
  by (simp add: clean_row_def astype_str_def strip_nan title_nan lower_nan)

lemma clean_row_present:
  "first_name (clean_row u r) \<noteq> None \<and> last_name (clean_row u r) \<noteq> None
   \<and> email (clean_row u r) \<noteq> None \<and> gender (clean_row u r) \<noteq> None
   \<and> department (clean_row u r) \<noteq> None \<and> currency (clean_row u r) \<noteq> None
   \<and> country (clean_row u r) \<noteq> None \<and> state (clean_row u r) \<noteq> None
   \<and> city (clean_row u r) \<noteq> None \<and> salary (clean_row u r) \<noteq> None
   \<and> manager_id (clean_row u r) \<noteq> None \<and> hire_date (clean_row u r) \<noteq> None
   \<and> exit_date (clean_row u r) \<noteq> None"
  by (simp add: clean_row_def)

text \<open>
  C10, as amended. After \<open>clean_strings\<close> no cell of a text column is missing. A cell
  that was missing holds the text \<open>nan\<close>, except in \<open>first_name\<close>, \<open>last_name\<close> and
  \<open>city\<close>, where the title-casing has made it \<open>Nan\<close>. A row whose email was missing
  reaches \<open>validate_emails\<close> with the email \<open>nan\<close> and is flagged false.
\<close>

theorem clean_strings_fills_missing:
  "(\<forall>r\<in>set (clean_strings u df).
        first_name r \<noteq> None \<and> last_name r \<noteq> None \<and> email r \<noteq> None \<and> gender r \<noteq> None
      \<and> department r \<noteq> None \<and> currency r \<noteq> None \<and> country r \<noteq> None \<and> state r \<noteq> None
      \<and> city r \<noteq> None \<and> salary r \<noteq> None \<and> manager_id r \<noteq> None \<and> hire_date r \<noteq> None
      \<and> exit_date r \<noteq> None)
   \<and> (\<forall>i<length df.
        (first_name (df ! i) = None \<longrightarrow> first_name (clean_strings u df ! i) = Some (ascii ''Nan''))
      \<and> (last_name (df ! i) = None \<longrightarrow> last_name (clean_strings u df ! i) = Some (ascii ''Nan''))
      \<and> (city (df ! i) = None \<longrightarrow> city (clean_strings u df ! i) = Some (ascii ''Nan''))
      \<and> (email (df ! i) = None \<longrightarrow> email (clean_strings u df ! i) = Some (ascii ''nan''))
      \<and> (gender (df ! i) = None \<longrightarrow> gender (clean_strings u df ! i) = Some (ascii ''nan''))
      \<and> (department (df ! i) = None \<longrightarrow> department (clean_strings u df ! i) = Some (ascii ''nan''))
      \<and> (currency (df ! i) = None \<longrightarrow> currency (clean_strings u df ! i) = Some (ascii ''nan''))
      \<and> (country (df ! i) = None \<longrightarrow> country (clean_strings u df ! i) = Some (ascii ''nan''))
      \<and> (state (df ! i) = None \<longrightarrow> state (clean_strings u df ! i) = Some (ascii ''nan''))
      \<and> (salary (df ! i) = None \<longrightarrow> salary (clean_strings u df ! i) = Some (ascii ''nan''))
      \<and> (manager_id (df ! i) = None \<longrightarrow> manager_id (clean_strings u df ! i) = Some (ascii ''nan''))
      \<and> (hire_date (df ! i) = None \<longrightarrow> hire_date (clean_strings u df ! i) = Some (ascii ''nan''))
      \<and> (exit_date (df ! i) = None \<longrightarrow> exit_date (clean_strings u df ! i) = Some (ascii ''nan'')))
   \<and> (\<forall>t. convert_data_types to_num to_date (clean_strings u df) = Inr t \<longrightarrow>
        (\<forall>i<length df. email (df ! i) = None \<longrightarrow>
            email (standardize_categories t ! i) = Some (ascii ''nan'')
          \<and> \<not> email_valid (validate_emails (standardize_categories t) ! i)))"
proof -
  have a: "\<forall>r\<in>set (clean_strings u df).
        first_name r \<noteq> None \<and> last_name r \<noteq> None \<and> email r \<noteq> None \<and> gender r \<noteq> None
      \<and> department r \<noteq> None \<and> currency r \<noteq> None \<and> country r \<noteq> None \<and> state r \<noteq> None
      \<and> city r \<noteq> None \<and> salary r \<noteq> None \<and> manager_id r \<noteq> None \<and> hire_date r \<noteq> None
      \<and> exit_date r \<noteq> None"
  proof
    fix r assume "r \<in> set (clean_strings u df)"
    then obtain q where r: "r = clean_row u q" unfolding clean_strings_rows by auto
    show "first_name r \<noteq> None \<and> last_name r \<noteq> None \<and> email r \<noteq> None \<and> gender r \<noteq> None
      \<and> department r \<noteq> None \<and> currency r \<noteq> None \<and> country r \<noteq> None \<and> state r \<noteq> None
      \<and> city r \<noteq> None \<and> salary r \<noteq> None \<and> manager_id r \<noteq> None \<and> hire_date r \<noteq> None
      \<and> exit_date r \<noteq> None"
      unfolding r by (rule clean_row_present)
  qed
  have b: "\<forall>i<length df.
        (first_name (df ! i) = None \<longrightarrow> first_name (clean_strings u df ! i) = Some (ascii ''Nan''))
      \<and> (last_name (df ! i) = None \<longrightarrow> last_name (clean_strings u df ! i) = Some (ascii ''Nan''))
      \<and> (city (df ! i) = None \<longrightarrow> city (clean_strings u df ! i) = Some (ascii ''Nan''))
      \<and> (email (df ! i) = None \<longrightarrow> email (clean_strings u df ! i) = Some (ascii ''nan''))
      \<and> (gender (df ! i) = None \<longrightarrow> gender (clean_strings u df ! i) = Some (ascii ''nan''))
      \<and> (department (df ! i) = None \<longrightarrow> department (clean_strings u df ! i) = Some (ascii ''nan''))
      \<and> (currency (df ! i) = None \<longrightarrow> currency (clean_strings u df ! i) = Some (ascii ''nan''))
      \<and> (country (df ! i) = None \<longrightarrow> country (clean_strings u df ! i) = Some (ascii ''nan''))
      \<and> (state (df ! i) = None \<longrightarrow> state (clean_strings u df ! i) = Some (ascii ''nan''))
      \<and> (salary (df ! i) = None \<longrightarrow> salary (clean_strings u df ! i) = Some (ascii ''nan''))
      \<and> (manager_id (df ! i) = None \<longrightarrow> manager_id (clean_strings u df ! i) = Some (ascii ''nan''))
      \<and> (hire_date (df ! i) = None \<longrightarrow> hire_date (clean_strings u df ! i) = Some (ascii ''nan''))
      \<and> (exit_date (df ! i) = None \<longrightarrow> exit_date (clean_strings u df ! i) = Some (ascii ''nan''))"
  proof (intro allI impI)
    fix i assume "i < length df"
    then have e: "clean_strings u df ! i = clean_row u (df ! i)" by (simp add: clean_strings_rows)
    show "(first_name (df ! i) = None \<longrightarrow> first_name (clean_strings u df ! i) = Some (ascii ''Nan''))
      \<and> (last_name (df ! i) = None \<longrightarrow> last_name (clean_strings u df ! i) = Some (ascii ''Nan''))
      \<and> (city (df ! i) = None \<longrightarrow> city (clean_strings u df ! i) = Some (ascii ''Nan''))
      \<and> (email (df ! i) = None \<longrightarrow> email (clean_strings u df ! i) = Some (ascii ''nan''))
      \<and> (gender (df ! i) = None \<longrightarrow> gender (clean_strings u df ! i) = Some (ascii ''nan''))
      \<and> (department (df ! i) = None \<longrightarrow> department (clean_strings u df ! i) = Some (ascii ''nan''))
      \<and> (currency (df ! i) = None \<longrightarrow> currency (clean_strings u df ! i) = Some (ascii ''nan''))
      \<and> (country (df ! i) = None \<longrightarrow> country (clean_strings u df ! i) = Some (ascii ''nan''))
      \<and> (state (df ! i) = None \<longrightarrow> state (clean_strings u df ! i) = Some (ascii ''nan''))
      \<and> (salary (df ! i) = None \<longrightarrow> salary (clean_strings u df ! i) = Some (ascii ''nan''))
      \<and> (manager_id (df ! i) = None \<longrightarrow> manager_id (clean_strings u df ! i) = Some (ascii ''nan''))
      \<and> (hire_date (df ! i) = None \<longrightarrow> hire_date (clean_strings u df ! i) = Some (ascii ''nan''))
      \<and> (exit_date (df ! i) = None \<longrightarrow> exit_date (clean_strings u df ! i) = Some (ascii ''nan''))"
      unfolding e by (rule clean_row_missing)
  qed
  have c: "\<forall>t. convert_data_types to_num to_date (clean_strings u df) = Inr t \<longrightarrow>
        (\<forall>i<length df. email (df ! i) = None \<longrightarrow>
            email (standardize_categories t ! i) = Some (ascii ''nan'')
          \<and> \<not> email_valid (validate_emails (standardize_categories t) ! i))"
  proof (intro allI impI)
    fix t i
    assume t: "convert_data_types to_num to_date (clean_strings u df) = Inr t"
      and i: "i < length df" and m: "email (df ! i) = None"
    from t have t': "t = map (convert_row to_num to_date) (map (clean_row u) df)"
      by (simp add: convert_data_types_rows clean_strings_rows)
    from m have "email (clean_row u (df ! i)) = Some (ascii ''nan'')"
      using clean_row_missing [of "df ! i"] by blast
    with i have e: "email (standardize_categories t ! i) = Some (ascii ''nan'')"
      by (simp add: t' standardize_categories_rows standardize_row_def convert_row_def
          with_columns_def)
    from i have "i < length (standardize_categories t)"
      by (simp add: t' standardize_categories_rows)
    from validate_emails_nth [OF this] e nan_no_email
    have "\<not> email_valid (validate_emails (standardize_categories t) ! i)"
      by (simp add: str_match_def)
    with e show "email (standardize_categories t ! i) = Some (ascii ''nan'')
          \<and> \<not> email_valid (validate_emails (standardize_categories t) ! i)" by simp
  qed
  show ?thesis by (rule conjI [OF a conjI [OF b c]])
qed

theorem clean_strings_fills_missing_witness:
  "email ([undated] ! 0) = None \<and> gender ([undated] ! 0) = None
   \<and> email (clean_strings latin1 [undated] ! 0) = Some (ascii ''nan'')
   \<and> gender (clean_strings latin1 [undated] ! 0) = Some (ascii ''nan'')
   \<and> (\<exists>t. convert_data_types decimal_literal iso_date (clean_strings latin1 [undated]) = Inr t
         \<and> \<not> email_valid (validate_emails (standardize_categories t) ! 0))"
proof -
  note t = clean_strings_fills_missing [of latin1 "[undated]" decimal_literal iso_date]
  have m: "email ([undated] ! 0) = None" and g: "gender ([undated] ! 0) = None"
    by (simp_all add: undated_def blank_def)
  have l: "(0::nat) < length [undated]" by simp
  from t l m have e: "email (clean_strings latin1 [undated] ! 0) = Some (ascii ''nan'')" by blast
  from t l g have e': "gender (clean_strings latin1 [undated] ! 0) = Some (ascii ''nan'')" by blast
  have c: "convert_data_types decimal_literal iso_date (clean_strings latin1 [undated])
      = Inr (map (convert_row decimal_literal iso_date) (clean_strings latin1 [undated]))"
    by (rule convert_data_types_rows)
  with t l m have "\<not> email_valid (validate_emails (standardize_categories
      (map (convert_row decimal_literal iso_date) (clean_strings latin1 [undated]))) ! 0)" by blast
  with c m g e e' show ?thesis by blast
qed

text \<open>
  The claim as written fails in the three title-cased columns: a missing \<open>first_name\<close>
  is the text \<open>Nan\<close> after \<open>clean_strings\<close>, not \<open>nan\<close>.
\<close>

theorem clean_strings_fills_missing_counterexample:
  "first_name undated = None
   \<and> map first_name (clean_strings latin1 [undated]) = [Some (ascii ''Nan'')]
   \<and> ascii ''Nan'' \<noteq> ascii ''nan''"
proof -
  have a: "first_name undated = None" by (simp add: undated_def blank_def)
  have b: "map first_name (clean_strings latin1 [undated]) = [Some (ascii ''Nan'')]"
    by (simp add: clean_strings_rows clean_row_def a astype_str_def strip_nan title_nan)
  have c: "ascii ''Nan'' \<noteq> ascii ''nan''" by (simp add: ascii_def)
  from a b c show ?thesis by (intro conjI)
qed

subsection \<open>Category standardization\<close>

lemma replace_value_mapped_or_kept: "mapped_or_kept m v (replace_value m v)"
  by (simp add: mapped_or_kept_def replace_value_def split: option.splits)

lemma replace_value_canonical_or_raw: "canonical_or_raw m v (replace_value m v)"
proof (cases v)
  case None
  then show ?thesis by (simp add: canonical_or_raw_def replace_value_def)
next
  case (Some s)
  show ?thesis
  proof (cases "map_of m s")
    case None
    with Some show ?thesis by (simp add: canonical_or_raw_def replace_value_def)
  next
    case (Some c)
    then have "(s, c) \<in> set m" by (rule map_of_SomeD)
    then have "c \<in> canonical m" by (force simp: canonical_def)
    with Some \<open>v = Some s\<close> show ?thesis by (simp add: canonical_or_raw_def replace_value_def)
  qed
qed

lemma gender_fixed: "\<forall>c\<in>canonical gender_mapping. map_of gender_mapping c = Some c"
  by (simp add: canonical_def gender_mapping_def ascii_def)

lemma dept_fixed: "\<forall>c\<in>canonical dept_mapping. map_of dept_mapping c = Some c"
  by (simp add: canonical_def dept_mapping_def ascii_def)

lemma currency_fixed: "\<forall>c\<in>canonical currency_map. map_of currency_map c = Some c"
  by (simp add: canonical_def currency_map_def ascii_def)

lemma country_fixed: "\<forall>c\<in>canonical country_mapping. map_of country_mapping c = Some c"
  by (simp add: canonical_def country_mapping_def ascii_def)

lemma state_fixed: "\<forall>c\<in>canonical state_mapping. map_of state_mapping c = Some c"
  by (simp add: canonical_def state_mapping_def ascii_def)

lemma dept_trimmed: "\<forall>c\<in>canonical dept_mapping. trimmed c"
  by (simp add: canonical_def dept_mapping_def trimmed_def isspace_def ascii_def)

lemma replace_value_idem:
  assumes "\<forall>c\<in>canonical m. map_of m c = Some c"
  shows "replace_value m (replace_value m v) = replace_value m v"
proof (cases v)
  case None
  then show ?thesis by (simp add: replace_value_def)
next
  case (Some s)
  show ?thesis
  proof (cases "map_of m s")
    case None
    with Some show ?thesis by (simp add: replace_value_def)
  next
    case (Some c)
    then have "(s, c) \<in> set m" by (rule map_of_SomeD)
    then have "c \<in> canonical m" by (force simp: canonical_def)
    with assms have "map_of m c = Some c" by blast
    with Some \<open>v = Some s\<close> show ?thesis by (simp add: replace_value_def)
  qed
qed

lemma department_idem:
  "replace_value dept_mapping (strip_cell (replace_value dept_mapping (strip_cell v)))
     = replace_value dept_mapping (strip_cell v)"
proof (cases "map_of dept_mapping (strip (astype_str v))")
  case None
  then show ?thesis by (simp add: replace_value_def strip_cell_def astype_str_def strip_strip)
next
  case (Some c)
  then have "(strip (astype_str v), c) \<in> set dept_mapping" by (rule map_of_SomeD)
  then have c: "c \<in> canonical dept_mapping" by (force simp: canonical_def)
  with dept_trimmed have "strip c = c" by (simp add: strip_trimmed)
  moreover from c dept_fixed have "map_of dept_mapping c = Some c" by blast
  ultimately show ?thesis using Some
    by (simp add: replace_value_def strip_cell_def astype_str_def)
qed

lemma standardize_row_idem: "standardize_row (standardize_row r) = standardize_row r"
  by (simp add: standardize_row_def department_idem
      replace_value_idem [OF gender_fixed] replace_value_idem [OF currency_fixed]
      replace_value_idem [OF country_fixed] replace_value_idem [OF state_fixed])

text \<open>
  C7. Each of the five standardization steps, and their sequence, changes nothing when
  applied a second time, for every table; every canonical value of a mapping table is a
  key of that table, mapped to itself.
\<close>

theorem standardize_categories_idempotent:
  fixes df :: "('n, 'd, 'z) employee_scheme list"
  shows
   "standardize_gender (standardize_gender df) = standardize_gender df
    \<and> standardize_department (standardize_department df) = standardize_department df
    \<and> standardize_currency (standardize_currency df) = standardize_currency df
    \<and> standardize_country (standardize_country df) = standardize_country df
    \<and> standardize_state (standardize_state df) = standardize_state df
    \<and> standardize_categories (standardize_categories df) = standardize_categories df
    \<and> (\<forall>c\<in>canonical gender_mapping. map_of gender_mapping c = Some c)
    \<and> (\<forall>c\<in>canonical dept_mapping. map_of dept_mapping c = Some c)
    \<and> (\<forall>c\<in>canonical currency_map. map_of currency_map c = Some c)
    \<and> (\<forall>c\<in>canonical country_mapping. map_of country_mapping c = Some c)
    \<and> (\<forall>c\<in>canonical state_mapping. map_of state_mapping c = Some c)"
proof -
  have g: "standardize_gender (standardize_gender df) = standardize_gender df"
    by (simp add: standardize_gender_def comp_def replace_value_idem [OF gender_fixed])
  have d: "standardize_department (standardize_department df) = standardize_department df"
    by (simp add: standardize_department_def comp_def department_idem)
  have c: "standardize_currency (standardize_currency df) = standardize_currency df"
    by (simp add: standardize_currency_def comp_def replace_value_idem [OF currency_fixed])
  have n: "standardize_country (standardize_country df) = standardize_country df"
    by (simp add: standardize_country_def comp_def replace_value_idem [OF country_fixed])
  have s: "standardize_state (standardize_state df) = standardize_state df"
    by (simp add: standardize_state_def comp_def replace_value_idem [OF state_fixed])
  have a: "standardize_categories (standardize_categories df) = standardize_categories df"
    by (simp add: standardize_categories_rows comp_def standardize_row_idem)
  from g d c n s a gender_fixed dept_fixed currency_fixed country_fixed state_fixed
  show ?thesis by (intro conjI)
qed

lemma standardize_abbreviated: "standardize_categories [abbreviated] = [spelled_out]"
  by (simp add: standardize_categories_rows standardize_row_def abbreviated_def spelled_out_def
      blank_def replace_value_def strip_cell_def astype_str_def gender_mapping_def
      dept_mapping_def currency_map_def country_mapping_def state_mapping_def
      strip_trimmed trimmed_def isspace_def ascii_def)

theorem standardize_categories_idempotent_witness:
  "standardize_categories [abbreviated] = [spelled_out]
   \<and> standardize_categories (standardize_categories [abbreviated]) = [spelled_out]
   \<and> ascii ''Male'' \<in> canonical gender_mapping \<and> map_of gender_mapping (ascii ''Male'') = Some (ascii ''Male'')
   \<and> ascii ''ZAR'' \<in> canonical currency_map \<and> map_of currency_map (ascii ''ZAR'') = Some (ascii ''ZAR'')"
proof -
  note t = standardize_categories_idempotent [of "[abbreviated]"]
  have m: "ascii ''Male'' \<in> canonical gender_mapping" by (simp add: canonical_def gender_mapping_def ascii_def)
  have z: "ascii ''ZAR'' \<in> canonical currency_map" by (simp add: canonical_def currency_map_def ascii_def)
  from t m have m': "map_of gender_mapping (ascii ''Male'') = Some (ascii ''Male'')" by blast
  from t z have z': "map_of currency_map (ascii ''ZAR'') = Some (ascii ''ZAR'')" by blast
  from t have "standardize_categories (standardize_categories [abbreviated])
      = standardize_categories [abbreviated]" by blast
  with standardize_abbreviated m m' z z' show ?thesis by simp
qed

lemma standardize_categories_nth:
  "i < length df \<Longrightarrow> standardize_categories df ! i = standardize_row (df ! i)"
  by (simp add: standardize_categories_rows)

text \<open>
  C6, as amended. In the four fields gender, currency, country and state the
  standardization maps a value found in the field's table to its canonical string and
  leaves every other value, a missing one too, unchanged. In department it does the same
  to the text of the cell with the outer white space removed (a missing cell is the text
  \<open>nan\<close>; white space is what \<open>str.strip()\<close> removes, the no-break space and the
  other Unicode spaces included), and writes that trimmed text back where the table does
  not have it; a department that already is a trimmed text is its own trimmed text.
  Hence every value after standardization is in the field's canonical set or is the
  value (for department: the trimmed text) that the table does not have. The canonical
  sets are as listed.
\<close>

theorem standardize_categories_lookup:
  fixes df :: "('n, 'd, 'z) employee_scheme list"
  shows
   "(\<forall>i<length df.
        mapped_or_kept gender_mapping (gender (df ! i)) (gender (standardize_categories df ! i))
      \<and> canonical_or_raw gender_mapping (gender (df ! i)) (gender (standardize_categories df ! i))
      \<and> mapped_or_kept currency_map (currency (df ! i)) (currency (standardize_categories df ! i))
      \<and> canonical_or_raw currency_map (currency (df ! i)) (currency (standardize_categories df ! i))
      \<and> mapped_or_kept country_mapping (country (df ! i)) (country (standardize_categories df ! i))
      \<and> canonical_or_raw country_mapping (country (df ! i)) (country (standardize_categories df ! i))
      \<and> mapped_or_kept state_mapping (state (df ! i)) (state (standardize_categories df ! i))
      \<and> canonical_or_raw state_mapping (state (df ! i)) (state (standardize_categories df ! i))
      \<and> mapped_or_kept dept_mapping (strip_cell (department (df ! i)))
            (department (standardize_categories df ! i))
      \<and> canonical_or_raw dept_mapping (strip_cell (department (df ! i)))
            (department (standardize_categories df ! i))
      \<and> (\<forall>s. department (df ! i) = Some s \<and> trimmed s \<longrightarrow>
            strip_cell (department (df ! i)) = department (df ! i)))
    \<and> canonical gender_mapping = {ascii ''Male'', ascii ''Female'', ascii ''Other''}
    \<and> canonical dept_mapping = {ascii ''Human Resource'', ascii ''Information Technology'', ascii ''Operations'',
         ascii ''Engineering'', ascii ''Finance'', ascii ''Sales''}
    \<and> canonical currency_map = {ascii ''ZAR'', ascii ''USD'', ascii ''GBP''}
    \<and> canonical country_mapping = {ascii ''South Africa'', ascii ''United Kingdom'', ascii ''United States''}
    \<and> canonical state_mapping = {ascii ''KwaZulu-Natal'', ascii ''Western Cape'', ascii ''Gauteng'', ascii ''Limpopo''}"
proof -
  have a: "\<forall>i<length df.
        mapped_or_kept gender_mapping (gender (df ! i)) (gender (standardize_categories df ! i))
      \<and> canonical_or_raw gender_mapping (gender (df ! i)) (gender (standardize_categories df ! i))
      \<and> mapped_or_kept currency_map (currency (df ! i)) (currency (standardize_categories df ! i))
      \<and> canonical_or_raw currency_map (currency (df ! i)) (currency (standardize_categories df ! i))
      \<and> mapped_or_kept country_mapping (country (df ! i)) (country (standardize_categories df ! i))
      \<and> canonical_or_raw country_mapping (country (df ! i)) (country (standardize_categories df ! i))
      \<and> mapped_or_kept state_mapping (state (df ! i)) (state (standardize_categories df ! i))
      \<and> canonical_or_raw state_mapping (state (df ! i)) (state (standardize_categories df ! i))
      \<and> mapped_or_kept dept_mapping (strip_cell (department (df ! i)))
            (department (standardize_categories df ! i))
      \<and> canonical_or_raw dept_mapping (strip_cell (department (df ! i)))
            (department (standardize_categories df ! i))
      \<and> (\<forall>s. department (df ! i) = Some s \<and> trimmed s \<longrightarrow>
            strip_cell (department (df ! i)) = department (df ! i))"
    by (simp add: standardize_categories_nth standardize_row_def replace_value_mapped_or_kept
        replace_value_canonical_or_raw strip_cell_def astype_str_def strip_trimmed)
  have g: "canonical gender_mapping = {ascii ''Male'', ascii ''Female'', ascii ''Other''}"
    by (auto simp: canonical_def gender_mapping_def)
  have d: "canonical dept_mapping = {ascii ''Human Resource'', ascii ''Information Technology'', ascii ''Operations'',
         ascii ''Engineering'', ascii ''Finance'', ascii ''Sales''}"
    by (auto simp: canonical_def dept_mapping_def)
  have c: "canonical currency_map = {ascii ''ZAR'', ascii ''USD'', ascii ''GBP''}"
    by (auto simp: canonical_def currency_map_def)
  have n: "canonical country_mapping = {ascii ''South Africa'', ascii ''United Kingdom'', ascii ''United States''}"
    by (auto simp: canonical_def country_mapping_def)
  have s: "canonical state_mapping = {ascii ''KwaZulu-Natal'', ascii ''Western Cape'', ascii ''Gauteng'', ascii ''Limpopo''}"
    by (auto simp: canonical_def state_mapping_def)
  show ?thesis
    by (rule conjI [OF a conjI [OF g conjI [OF d conjI [OF c conjI [OF n s]]]]])
qed

lemma strip_nbsp_hr: "strip (0xA0 # ascii ''HR'' @ [0xA0]) = ascii ''HR''"
  by (simp add: strip_def lstrip_def rstrip_def isspace_def ascii_def)

lemma dept_hr: "map_of dept_mapping (ascii ''HR'') = Some (ascii ''Human Resource'')"
  by (simp add: dept_mapping_def)

theorem standardize_categories_lookup_witness:
  "gender ([abbreviated] ! 0) = Some (ascii ''M'')
   \<and> gender (standardize_categories [abbreviated] ! 0) = Some (ascii ''Male'')
   \<and> department ([abbreviated] ! 0) = Some (ascii ''H.R'') \<and> trimmed (ascii ''H.R'')
   \<and> strip_cell (department ([abbreviated] ! 0)) = department ([abbreviated] ! 0)
   \<and> department (standardize_categories [abbreviated] ! 0) = Some (ascii ''Human Resource'')
   \<and> department ([padded] ! 0) = Some (0xA0 # ascii ''HR'' @ [0xA0])
   \<and> strip_cell (department ([padded] ! 0)) = Some (ascii ''HR'')
   \<and> department (standardize_categories [padded] ! 0) = Some (ascii ''Human Resource'')"
proof -
  have k: "(0::nat) < length [padded]" by simp
  note p = standardize_categories_lookup [of "[padded]", THEN conjunct1, rule_format, OF k]
  have pd: "department ([padded] ! 0) = Some (0xA0 # ascii ''HR'' @ [0xA0])"
    by (simp add: padded_def blank_def)
  have ps: "strip_cell (department ([padded] ! 0)) = Some (ascii ''HR'')"
    unfolding pd by (simp add: strip_cell_def astype_str_def strip_nbsp_hr)
  from p have "mapped_or_kept dept_mapping (strip_cell (department ([padded] ! 0)))
      (department (standardize_categories [padded] ! 0))" by (elim conjE)
  then have pd': "department (standardize_categories [padded] ! 0) = Some (ascii ''Human Resource'')"
    unfolding ps by (simp add: mapped_or_kept_def dept_hr)
  have l: "(0::nat) < length [abbreviated]" by simp
  note t = standardize_categories_lookup [of "[abbreviated]", THEN conjunct1, rule_format, OF l]
  have g: "gender ([abbreviated] ! 0) = Some (ascii ''M'')"
    and d: "department ([abbreviated] ! 0) = Some (ascii ''H.R'')"
    by (simp_all add: abbreviated_def blank_def)
  have tr: "trimmed (ascii ''H.R'')" by (simp add: trimmed_def isspace_def ascii_def)
  from t have "mapped_or_kept gender_mapping (gender ([abbreviated] ! 0))
      (gender (standardize_categories [abbreviated] ! 0))" by (elim conjE)
  then have g': "gender (standardize_categories [abbreviated] ! 0) = Some (ascii ''Male'')"
    unfolding g by (simp add: mapped_or_kept_def gender_mapping_def ascii_def)
  from t have "\<forall>s. department ([abbreviated] ! 0) = Some s \<and> trimmed s \<longrightarrow>
      strip_cell (department ([abbreviated] ! 0)) = department ([abbreviated] ! 0)"
    by (elim conjE)
  with d tr have s: "strip_cell (department ([abbreviated] ! 0)) = department ([abbreviated] ! 0)"
    by blast
  from t have "mapped_or_kept dept_mapping (strip_cell (department ([abbreviated] ! 0)))
      (department (standardize_categories [abbreviated] ! 0))" by (elim conjE)
  with s d have "mapped_or_kept dept_mapping (Some (ascii ''H.R''))
      (department (standardize_categories [abbreviated] ! 0))" by simp
  then have d': "department (standardize_categories [abbreviated] ! 0) = Some (ascii ''Human Resource'')"
    by (simp add: mapped_or_kept_def dept_mapping_def ascii_def)
  from g g' d tr s d' pd ps pd' show ?thesis by (intro conjI)
qed

lemma strip_legal: "strip (ascii '' Legal '') = ascii ''Legal''"
  by (simp add: strip_def lstrip_def rstrip_def isspace_def ascii_def)

text \<open>
  The claim as written fails on department: a value with outer white space that the
  table does not have is not left unchanged, and what is written back is neither
  canonical nor the raw value.
\<close>

theorem standardize_categories_lookup_counterexample:
  "map_of dept_mapping (ascii '' Legal '') = None
   \<and> map department [legal] = [Some (ascii '' Legal '')]
   \<and> map department (standardize_department [legal]) = [Some (ascii ''Legal'')]
   \<and> map department (standardize_categories [legal]) = [Some (ascii ''Legal'')]
   \<and> ascii ''Legal'' \<notin> canonical dept_mapping"
proof -
  have a: "map_of dept_mapping (ascii '' Legal '') = None"
    by (simp add: dept_mapping_def ascii_def)
  have l: "map_of dept_mapping (ascii ''Legal'') = None"
    by (simp add: dept_mapping_def ascii_def)
  have b: "map department [legal] = [Some (ascii '' Legal '')]"
    by (simp add: legal_def blank_def)
  have c: "map department (standardize_department [legal]) = [Some (ascii ''Legal'')]"
    by (simp add: standardize_department_def legal_def blank_def replace_value_def
        strip_cell_def astype_str_def strip_legal l)
  have d: "map department (standardize_categories [legal]) = [Some (ascii ''Legal'')]"
    by (simp add: standardize_categories_rows standardize_row_def legal_def blank_def
        replace_value_def strip_cell_def astype_str_def strip_legal l)
  have e: "ascii ''Legal'' \<notin> canonical dept_mapping"
    by (simp add: canonical_def dept_mapping_def ascii_def)
  from a b c d e show ?thesis by (intro conjI)
qed

subsection \<open>Matching after trimming\<close>

lemma replace_value_found: "map_of m s = Some c \<Longrightarrow> replace_value m (Some s) = Some c"
  by (simp add: replace_value_def)

text \<open>
  C8, as amended. \<open>standardize_department\<close> trims the text of the cell and then matches
  it exactly: a department equal to a mapped variant up to outer white space (that of
  \<open>str.strip()\<close>, the Unicode spaces included) becomes the variant's canonical string.
  The other four steps match the cell exactly as it is and do not trim. After
  \<open>clean_strings\<close>, which does the trimming, and the conversion, all five steps map a
  value that equalled a mapped variant up to outer white space to the canonical string.
\<close>

theorem standardize_match_after_trim:
  fixes df :: "('n, 'd, 'z) employee_scheme list" and raw :: "raw_employee list"
  shows
   "(\<forall>i<length df. \<forall>s c. department (df ! i) = Some s \<and> map_of dept_mapping (strip s) = Some c
        \<longrightarrow> department (standardize_department df ! i) = Some c)
    \<and> (\<forall>i<length df. \<forall>s c.
          (gender (df ! i) = Some s \<and> map_of gender_mapping s = Some c
             \<longrightarrow> gender (standardize_gender df ! i) = Some c)
        \<and> (currency (df ! i) = Some s \<and> map_of currency_map s = Some c
             \<longrightarrow> currency (standardize_currency df ! i) = Some c)
        \<and> (country (df ! i) = Some s \<and> map_of country_mapping s = Some c
             \<longrightarrow> country (standardize_country df ! i) = Some c)
        \<and> (state (df ! i) = Some s \<and> map_of state_mapping s = Some c
             \<longrightarrow> state (standardize_state df ! i) = Some c))
    \<and> (\<forall>t. convert_data_types to_num to_date (clean_strings u raw) = Inr t \<longrightarrow>
         (\<forall>i<length raw. \<forall>s c.
            (gender (raw ! i) = Some s \<and> map_of gender_mapping (strip s) = Some c
               \<longrightarrow> gender (standardize_categories t ! i) = Some c)
          \<and> (department (raw ! i) = Some s \<and> map_of dept_mapping (strip s) = Some c
               \<longrightarrow> department (standardize_categories t ! i) = Some c)
          \<and> (currency (raw ! i) = Some s \<and> map_of currency_map (strip s) = Some c
               \<longrightarrow> currency (standardize_categories t ! i) = Some c)
          \<and> (country (raw ! i) = Some s \<and> map_of country_mapping (strip s) = Some c
               \<longrightarrow> country (standardize_categories t ! i) = Some c)
          \<and> (state (raw ! i) = Some s \<and> map_of state_mapping (strip s) = Some c
               \<longrightarrow> state (standardize_categories t ! i) = Some c)))"
proof -
  have a: "\<forall>i<length df. \<forall>s c. department (df ! i) = Some s \<and> map_of dept_mapping (strip s) = Some c
        \<longrightarrow> department (standardize_department df ! i) = Some c"
    by (simp add: standardize_department_def strip_cell_def astype_str_def replace_value_found)
  have b: "\<forall>i<length df. \<forall>s c.
          (gender (df ! i) = Some s \<and> map_of gender_mapping s = Some c
             \<longrightarrow> gender (standardize_gender df ! i) = Some c)
        \<and> (currency (df ! i) = Some s \<and> map_of currency_map s = Some c
             \<longrightarrow> currency (standardize_currency df ! i) = Some c)
        \<and> (country (df ! i) = Some s \<and> map_of country_mapping s = Some c
             \<longrightarrow> country (standardize_country df ! i) = Some c)
        \<and> (state (df ! i) = Some s \<and> map_of state_mapping s = Some c
             \<longrightarrow> state (standardize_state df ! i) = Some c)"
    by (simp add: standardize_gender_def standardize_currency_def standardize_country_def
        standardize_state_def replace_value_found)
  have c: "\<forall>t. convert_data_types to_num to_date (clean_strings u raw) = Inr t \<longrightarrow>
         (\<forall>i<length raw. \<forall>s c.
            (gender (raw ! i) = Some s \<and> map_of gender_mapping (strip s) = Some c
               \<longrightarrow> gender (standardize_categories t ! i) = Some c)
          \<and> (department (raw ! i) = Some s \<and> map_of dept_mapping (strip s) = Some c
               \<longrightarrow> department (standardize_categories t ! i) = Some c)
          \<and> (currency (raw ! i) = Some s \<and> map_of currency_map (strip s) = Some c
               \<longrightarrow> currency (standardize_categories t ! i) = Some c)
          \<and> (country (raw ! i) = Some s \<and> map_of country_mapping (strip s) = Some c
               \<longrightarrow> country (standardize_categories t ! i) = Some c)
          \<and> (state (raw ! i) = Some s \<and> map_of state_mapping (strip s) = Some c
               \<longrightarrow> state (standardize_categories t ! i) = Some c))"
    by (simp add: convert_data_types_rows standardize_categories_rows clean_strings_rows
        standardize_row_def clean_row_def convert_row_def with_columns_def
        strip_cell_def astype_str_def strip_strip replace_value_found)
  show ?thesis by (rule conjI [OF a conjI [OF b c]])
qed

lemma strip_m: "strip (ascii '' M '') = ascii ''M''"
  by (simp add: strip_def lstrip_def rstrip_def isspace_def ascii_def)

lemma gender_m: "map_of gender_mapping (ascii ''M'') = Some (ascii ''Male'')"
  by (simp add: gender_mapping_def)

theorem standardize_match_after_trim_witness:
  "department ([padded] ! 0) = Some (0xA0 # ascii ''HR'' @ [0xA0])
   \<and> map_of dept_mapping (strip (0xA0 # ascii ''HR'' @ [0xA0])) = Some (ascii ''Human Resource'')
   \<and> department (standardize_department [padded] ! 0) = Some (ascii ''Human Resource'')
   \<and> gender ([abbreviated] ! 0) = Some (ascii ''M'')
   \<and> map_of gender_mapping (ascii ''M'') = Some (ascii ''Male'')
   \<and> gender (standardize_gender [abbreviated] ! 0) = Some (ascii ''Male'')
   \<and> gender ([padded] ! 0) = Some (ascii '' M '')
   \<and> map_of gender_mapping (strip (ascii '' M '')) = Some (ascii ''Male'')
   \<and> (\<exists>t. convert_data_types decimal_literal iso_date (clean_strings latin1 [padded]) = Inr t
         \<and> gender (standardize_categories t ! 0) = Some (ascii ''Male'')
         \<and> department (standardize_categories t ! 0) = Some (ascii ''Human Resource''))"
proof -
  note t = standardize_match_after_trim [of "[padded]" decimal_literal iso_date latin1 "[padded]"]
  note v = standardize_match_after_trim [of "[abbreviated]" decimal_literal iso_date latin1 "[]"]
  have l: "(0::nat) < length [padded]" and k: "(0::nat) < length [abbreviated]" by simp_all
  have d: "department ([padded] ! 0) = Some (0xA0 # ascii ''HR'' @ [0xA0])"
    and g: "gender ([padded] ! 0) = Some (ascii '' M '')"
    by (simp_all add: padded_def blank_def)
  have a: "gender ([abbreviated] ! 0) = Some (ascii ''M'')"
    by (simp add: abbreviated_def blank_def)
  have md: "map_of dept_mapping (strip (0xA0 # ascii ''HR'' @ [0xA0])) = Some (ascii ''Human Resource'')"
    by (simp add: strip_nbsp_hr dept_hr)
  have mg: "map_of gender_mapping (strip (ascii '' M '')) = Some (ascii ''Male'')"
    by (simp add: strip_m gender_m)
  from t [THEN conjunct1, rule_format, OF l] d md
  have d': "department (standardize_department [padded] ! 0) = Some (ascii ''Human Resource'')"
    by blast
  from v [THEN conjunct2, THEN conjunct1, rule_format, OF k, THEN conjunct1] a gender_m
  have a': "gender (standardize_gender [abbreviated] ! 0) = Some (ascii ''Male'')"
    by blast
  have c: "convert_data_types decimal_literal iso_date (clean_strings latin1 [padded])
      = Inr (map (convert_row decimal_literal iso_date) (clean_strings latin1 [padded]))"
    by (rule convert_data_types_rows)
  note w = t [THEN conjunct2, THEN conjunct2, rule_format, OF c l]
  from w [THEN conjunct1] g mg
  have g': "gender (standardize_categories
      (map (convert_row decimal_literal iso_date) (clean_strings latin1 [padded])) ! 0)
        = Some (ascii ''Male'')"
    by blast
  from w [THEN conjunct2, THEN conjunct1] d md
  have "department (standardize_categories
      (map (convert_row decimal_literal iso_date) (clean_strings latin1 [padded])) ! 0)
        = Some (ascii ''Human Resource'')"
    by blast
  with c g' have "\<exists>t. convert_data_types decimal_literal iso_date (clean_strings latin1 [padded]) = Inr t
         \<and> gender (standardize_categories t ! 0) = Some (ascii ''Male'')
         \<and> department (standardize_categories t ! 0) = Some (ascii ''Human Resource'')" by blast
  with d md d' a gender_m a' g mg show ?thesis by (intro conjI)
qed

text \<open>
  The claim as written fails in the four fields whose step does not trim: applied to
  the gender \<open>M\<close> with a blank on either side, \<open>standardize_gender\<close> leaves it as it is.
\<close>

theorem standardize_match_after_trim_counterexample:
  "strip (ascii '' M '') = ascii ''M''
   \<and> map_of gender_mapping (ascii ''M'') = Some (ascii ''Male'')
   \<and> map gender [padded] = [Some (ascii '' M '')]
   \<and> map gender (standardize_gender [padded]) = [Some (ascii '' M '')]"
proof -
  have n: "map_of gender_mapping (ascii '' M '') = None"
    by (simp add: gender_mapping_def ascii_def)
  have a: "map gender [padded] = [Some (ascii '' M '')]"
    by (simp add: padded_def blank_def)
  have b: "map gender (standardize_gender [padded]) = [Some (ascii '' M '')]"
    by (simp add: standardize_gender_def padded_def blank_def replace_value_def n)
  from strip_m gender_m a b show ?thesis by (intro conjI)
qed

subsection \<open>A scenario of the specification\<close>

text \<open>
  A row whose exit date lies before its hire date leaves the pipeline with the exit date
  missing and the hire date kept.
\<close>

lemma main_inverted:
  "map_sum id (map exit_date) (main latin1 decimal_literal iso_date Float64 [inverted]) = Inr [None]
   \<and> map_sum id (map hire_date) (main latin1 decimal_literal iso_date Float64 [inverted])
       = Inr [Some 20210501]"
  by (simp add: main_steps clean_strings_rows clean_row_def convert_row_def
      standardize_categories_rows standardize_row_def validate_emails_def
      fix_negative_salaries_def validate_dates_def remove_duplicates_def
      duplicated_def sum_bool_def drop_duplicates_def inverted_def blank_def with_columns_def
      astype_str_def strip_2021 strip_2020 iso_date_2021 iso_date_2020
      lt_zero_def date_lt_def employee.defs checked.defs)

end
